theory Spec2Isabelle
  imports Complex_Main "HOL-Library.Log_Nat"
begin

section \<open>Conventions of the embedding\<close>

text \<open>
  The development embeds the extraction helpers of \<^verbatim>\<open>scraper.py\<close> and the filter of
  \<^verbatim>\<open>filters.py\<close>.

  \<^item> A Python \<^verbatim>\<open>str\<close> is a HOL \<open>string\<close>; the text is taken to be ASCII, so
    \<^verbatim>\<open>\d\<close> and \<^verbatim>\<open>str.isdigit\<close> mean \<open>0\<close> to \<open>9\<close> and \<^verbatim>\<open>str.lower\<close> changes
    \<open>A\<close> to \<open>Z\<close> only.
  \<^item> A Python \<^verbatim>\<open>float\<close> is the rational it denotes (\<open>rat\<close>), and every operation
    on floats rounds to binary64; \<^verbatim>\<open>int\<close> is unbounded.
  \<^item> An exception is a value \<open>Inl e\<close> of a sum type; \<^verbatim>\<open>try/except\<close> is a case
    distinction on it.
  \<^item> A dictionary with a fixed set of keys is a record of options, \<open>None\<close> for an absent
    key; \<^verbatim>\<open>d.get(k, default)\<close> is a case distinction on the field.
\<close>

text \<open>
  \<open>AttributeError n\<close>: the attribute \<open>n\<close> is missing; \<open>ValueError\<close>: \<^verbatim>\<open>float\<close> rejects its
  argument; \<open>OverflowError\<close>: an \<^verbatim>\<open>int\<close> or a quotient of \<^verbatim>\<open>int\<close>s is too large for a
  float; \<open>ZeroDivisionError\<close>; \<open>LibraryError\<close>: a call into the HTML parser library raises.
\<close>

datatype exn =
  AttributeError string | ValueError | OverflowError | ZeroDivisionError | LibraryError

section \<open>Floating point\<close>

text \<open>
  A float is the rational number it denotes; the infinities and NaN are not values of the
  model. Arithmetic on floats rounds the exact result to binary64: \<open>fl x\<close> is the binary64
  number nearest to \<open>x\<close>, a tie going to the even significand, with gradual underflow
  below \<open>2\<^sup>-\<^sup>1\<^sup>0\<^sup>2\<^sup>2\<close>. A result of magnitude \<open>2\<^sup>1\<^sup>0\<^sup>2\<^sup>4\<close> or more overflows. Where Python
  raises on overflow (the conversion of an \<^verbatim>\<open>int\<close>, the true division of two
  \<^verbatim>\<open>int\<close>s) so does the model. Where Python returns an infinity (arithmetic on
  floats, \<^verbatim>\<open>float(s)\<close>) the model has no value for it, and the statements about such
  results bound the arguments so that none overflows. Comparisons are exact.
\<close>

definition pow2 :: "int \<Rightarrow> rat" where
  "pow2 k = (if 0 \<le> k then 2 ^ nat k else 1 / 2 ^ nat (- k))"

text \<open>
  The exponent of \<open>x \<noteq> 0\<close>: the \<open>k\<close> with \<open>2\<^sup>k \<le> \<bar>x\<bar> < 2\<^sup>k\<^sup>+\<^sup>1\<close>, from the bit lengths of the
  numerator and the denominator.
\<close>

definition ilog2 :: "rat \<Rightarrow> int" where
  "ilog2 x =
     (let k = bitlen (fst (quotient_of \<bar>x\<bar>)) - bitlen (snd (quotient_of \<bar>x\<bar>))
      in if pow2 k \<le> \<bar>x\<bar> then k else k - 1)"

definition round_half_even :: "rat \<Rightarrow> int" where
  "round_half_even x =
     (let f = \<lfloor>x\<rfloor>; d = x - of_int f
      in if d < 1 / 2 then f else if 1 / 2 < d then f + 1 else if even f then f else f + 1)"

text \<open>A binary64 number is a multiple of the unit \<open>2\<^sup>e\<^sup>-\<^sup>5\<^sup>2\<close> of its exponent \<open>e \<ge> -1022\<close>.\<close>

definition fl :: "rat \<Rightarrow> rat" where
  "fl x =
     (if x = 0 then 0
      else (let u = pow2 (max (ilog2 x) (- 1022) - 52)
            in of_int (round_half_even (x / u)) * u))"

text \<open>The rounded value has magnitude \<open>2\<^sup>1\<^sup>0\<^sup>2\<^sup>4\<close> or more.\<close>

definition overflows :: "rat \<Rightarrow> bool" where
  "overflows x = (1024 \<le> ilog2 (fl x))"

definition fadd :: "rat \<Rightarrow> rat \<Rightarrow> rat" where
  "fadd x y = fl (x + y)"

definition fsub :: "rat \<Rightarrow> rat \<Rightarrow> rat" where
  "fsub x y = fl (x - y)"

definition fmul :: "rat \<Rightarrow> rat \<Rightarrow> rat" where
  "fmul x y = fl (x * y)"

text \<open>The divisors of the source are never zero: a constant, or a value tested before.\<close>

definition fdiv :: "rat \<Rightarrow> rat \<Rightarrow> rat" where
  "fdiv x y = fl (x / y)"

text \<open>The conversion of an \<^verbatim>\<open>int\<close> operand of a float operation.\<close>

definition float_of_int :: "int \<Rightarrow> exn + rat" where
  "float_of_int n =
     (if overflows (of_int n) then Inl OverflowError else Inr (fl (of_int n)))"

text \<open>\<^verbatim>\<open>n / d\<close> on two \<^verbatim>\<open>int\<close>s: the quotient, rounded once.\<close>

definition truediv :: "int \<Rightarrow> int \<Rightarrow> exn + rat" where
  "truediv n d =
     (if d = 0 then Inl ZeroDivisionError
      else if overflows (of_int n / of_int d) then Inl OverflowError
      else Inr (fl (of_int n / of_int d)))"

text \<open>
  \<^verbatim>\<open>round(x, 2)\<close> on a float: the decimal of two places nearest to the exact value of
  \<open>x\<close>, a tie to the even one, then the float nearest to that decimal.
\<close>

definition round2 :: "rat \<Rightarrow> rat" where
  "round2 x = fl (of_int (round_half_even (x * 100)) / 100)"

section \<open>Strings\<close>

definition is_digit :: "char \<Rightarrow> bool" where
  "is_digit c = (c \<in> set ''0123456789'')"

definition digit_val :: "char \<Rightarrow> nat" where
  "digit_val c =
     (case map_of (zip ''0123456789'' [0, 1, 2, 3, 4, 5, 6, 7, 8, 9]) c of
        None \<Rightarrow> 0 | Some n \<Rightarrow> n)"

text \<open>\<^verbatim>\<open>int(s)\<close> on a string of decimal digits.\<close>

definition int_of_digits :: "string \<Rightarrow> nat" where
  "int_of_digits ds = foldl (\<lambda>n c. 10 * n + digit_val c) 0 ds"

definition lower_char :: "char \<Rightarrow> char" where
  "lower_char c =
     (case map_of (zip ''ABCDEFGHIJKLMNOPQRSTUVWXYZ'' ''abcdefghijklmnopqrstuvwxyz'') c of
        None \<Rightarrow> c | Some d \<Rightarrow> d)"

text \<open>\<^verbatim>\<open>s.lower()\<close>\<close>

definition lower :: "string \<Rightarrow> string" where
  "lower s = map lower_char s"

fun starts_with :: "string \<Rightarrow> string \<Rightarrow> bool" where
  "starts_with [] s = True"
| "starts_with (p # ps) [] = False"
| "starts_with (p # ps) (c # cs) = (p = c \<and> starts_with ps cs)"

text \<open>\<^verbatim>\<open>needle in hay\<close> on strings: the needle starts at some position of the hay.\<close>

fun contains :: "string \<Rightarrow> string \<Rightarrow> bool" where
  "contains needle [] = (needle = [])"
| "contains needle (c # cs) = (starts_with needle (c # cs) \<or> contains needle cs)"

text \<open>\<^verbatim>\<open>s.isdigit()\<close>: non-empty and digits only.\<close>

definition isdigit :: "string \<Rightarrow> bool" where
  "isdigit s = (s \<noteq> [] \<and> list_all is_digit s)"

section \<open>The regular expressions of the scraper\<close>

text \<open>
  \<^verbatim>\<open>re.search(p, s)\<close> tries the pattern at every position of \<open>s\<close> from the left and
  returns the first match. \<open>re_search m s\<close> does so for a matcher \<open>m\<close> that matches the
  pattern at the start of its argument and returns group 1.
\<close>

fun re_search :: "(string \<Rightarrow> string option) \<Rightarrow> string \<Rightarrow> string option" where
  "re_search m [] = m []"
| "re_search m (c # cs) = (case m (c # cs) of Some g \<Rightarrow> Some g | None \<Rightarrow> re_search m cs)"

text \<open>
  A literal followed by a group of at least \<open>n\<close> characters of a class, as in
  \<^verbatim>\<open>item=(\d+)\<close>, \<^verbatim>\<open>/(\d{12,})\<close> and \<^verbatim>\<open>/itm/([^/?&]+)\<close>. Nothing follows the group, so
  the greedy group is the longest run of the class.
\<close>

definition lit_run :: "string \<Rightarrow> (char \<Rightarrow> bool) \<Rightarrow> nat \<Rightarrow> string \<Rightarrow> string option" where
  "lit_run lit cls n s =
     (if starts_with lit s
      then (let g = takeWhile cls (drop (length lit) s)
            in if n \<le> length g then Some g else None)
      else None)"

text \<open>
  \<^verbatim>\<open>(\d+)u\<close> for a unit letter \<open>u\<close>: the longest run of digits, then the letter.
  Backtracking to a shorter run cannot help, since the character after a shorter run is a
  digit.
\<close>

definition digits_unit :: "char \<Rightarrow> string \<Rightarrow> string option" where
  "digits_unit u s =
     (let g = takeWhile is_digit s
      in if g \<noteq> [] \<and> starts_with [u] (dropWhile is_digit s) then Some g else None)"

section \<open>PriceParser\<close>

text \<open>
  \<^verbatim>\<open>float(s)\<close> on the strings \<open>parse_price\<close> passes to it, which hold digits and dots
  only: digits with at most one dot and at least one digit; anything else raises
  \<^verbatim>\<open>ValueError\<close>. The result is the float nearest to the decimal. A text of at most 308
  characters is below \<open>10\<^sup>3\<^sup>0\<^sup>8\<close> and does not overflow; on a longer text Python can return
  an infinity.
\<close>

definition py_float :: "string \<Rightarrow> exn + rat" where
  "py_float s =
     (let ip = takeWhile is_digit s; rest = dropWhile is_digit s
      in case rest of
           [] \<Rightarrow> if ip = [] then Inl ValueError else Inr (fl (of_nat (int_of_digits ip)))
         | c # fp \<Rightarrow>
             if c = CHR ''.'' \<and> list_all is_digit fp \<and> (ip \<noteq> [] \<or> fp \<noteq> [])
             then Inr (fl (of_nat (int_of_digits ip)
                         + of_nat (int_of_digits fp) / 10 ^ length fp))
             else Inl ValueError)"

definition parse_price :: "string \<Rightarrow> rat option" where
  "parse_price price_text =
     (let price_clean = filter (\<lambda>c. is_digit c \<or> c = CHR ''.'' \<or> c = CHR '','') price_text;
          price_clean = filter (\<lambda>c. c \<noteq> CHR '','') price_clean
      in if price_clean = [] then None
         else (case py_float price_clean of Inl e \<Rightarrow> None | Inr v \<Rightarrow> Some v))"

section \<open>DurationParser\<close>

text \<open>
  The argument is \<open>Some\<close> text, or \<open>None\<close> for a value that is not a string, on which
  \<^verbatim>\<open>time_text.lower()\<close> raises. \<open>parse_time_remaining_body\<close> is the body of the
  \<^verbatim>\<open>try\<close>. The days and the hours are \<^verbatim>\<open>int\<close>s converted when they are added to
  the float \<^verbatim>\<open>hours\<close>; the minutes are a true division of \<^verbatim>\<open>int\<close>s. A count too
  large for a float raises. (\<^verbatim>\<open>int\<close> itself rejects a text of more than 4300 digits in
  recent versions of Python; such a count is too large for a float as well, and both
  exceptions reach the same handler.)
\<close>

definition parse_time_remaining_body :: "string option \<Rightarrow> exn + rat" where
  "parse_time_remaining_body arg =
     (case arg of
        None \<Rightarrow> Inl (AttributeError ''lower'')
      | Some time_text \<Rightarrow>
     (let time_text = lower time_text;
          hours = 0
      in case (case re_search (digits_unit CHR ''d'') time_text of
                 None \<Rightarrow> Inr hours
               | Some g \<Rightarrow>
                   (case float_of_int (int (int_of_digits g) * 24) of
                      Inl e \<Rightarrow> Inl e
                    | Inr days \<Rightarrow> Inr (fadd hours days))) of
        Inl e \<Rightarrow> Inl e
      | Inr hours \<Rightarrow>
     (case (case re_search (digits_unit CHR ''h'') time_text of
              None \<Rightarrow> Inr hours
            | Some g \<Rightarrow>
                (case float_of_int (int (int_of_digits g)) of
                   Inl e \<Rightarrow> Inl e
                 | Inr h \<Rightarrow> Inr (fadd hours h))) of
        Inl e \<Rightarrow> Inl e
      | Inr hours \<Rightarrow>
     (case re_search (digits_unit CHR ''m'') time_text of
        None \<Rightarrow> Inr hours
      | Some g \<Rightarrow>
          (case truediv (int (int_of_digits g)) 60 of
             Inl e \<Rightarrow> Inl e
           | Inr m \<Rightarrow> Inr (fadd hours m))))))"

definition parse_time_remaining :: "string option \<Rightarrow> rat" where
  "parse_time_remaining arg =
     (case parse_time_remaining_body arg of Inl e \<Rightarrow> 999 | Inr hours \<Rightarrow> hours)"

section \<open>BrandDetector\<close>

definition brands :: "string list" where
  "brands =
     [''MacBook'', ''ThinkPad'', ''XPS'', ''Surface'', ''Alienware'',
      ''Dell'', ''Lenovo'', ''HP'', ''ASUS'', ''Acer'', ''MSI'',
      ''Apple'', ''Microsoft'', ''Razer'', ''Sony'', ''Toshiba'']"

fun first_brand :: "string list \<Rightarrow> string \<Rightarrow> string option" where
  "first_brand [] title_lower = None"
| "first_brand (brand # rest) title_lower =
     (if contains (lower brand) title_lower then Some brand else first_brand rest title_lower)"

definition extract_brand :: "string \<Rightarrow> string option" where
  "extract_brand title = first_brand brands (lower title)"

section \<open>ListingExtractor\<close>

text \<open>
  The HTML parser is a library, so a fragment is given by what the lookups of
  \<^verbatim>\<open>_parse_auction_item\<close> and \<^verbatim>\<open>_parse_bid_info\<close> return on it. A lookup raises
  (\<open>Inl\<close>), finds nothing (\<open>Inr None\<close>) or finds a node. A node is its stripped text
  (\<^verbatim>\<open>get_text(strip=True)\<close>), its \<^verbatim>\<open>href\<close> attribute and the outcome of
  \<^verbatim>\<open>find('a')\<close> inside it. A node is truthy.
\<close>

datatype tag = Tag (get_text: string) (href: "string option") (find_a: "exn + tag option")

record item_soup =
  h3_s_item_title :: "exn + tag option"
  h3_title :: "exn + tag option"
  a_link :: "exn + tag option"
  a_s_item_link :: "exn + tag option"
  a_href :: "exn + tag option"
  span_s_item_price :: "exn + tag option"
  span_price :: "exn + tag option"
  span_dollar :: "exn + tag option"
  span_s_item_bidCount :: "exn + tag option"
  span_bid :: "exn + tag option"
  span_bid_string :: "exn + tag option"
  span_s_item_time_left :: "exn + tag option"
  span_time :: "exn + tag option"
  span_dhm_string :: "exn + tag option"
  span_s_item_shipping :: "exn + tag option"

text \<open>\<^verbatim>\<open>x or y\<close> on lookups: \<open>y\<close> is evaluated only when \<open>x\<close> found nothing.\<close>

definition or_else :: "exn + tag option \<Rightarrow> exn + tag option \<Rightarrow> exn + tag option" where
  "or_else x y = (case x of Inl e \<Rightarrow> Inl e | Inr None \<Rightarrow> y | Inr (Some t) \<Rightarrow> Inr (Some t))"

text \<open>The records of the pipeline: the dictionary built here and enriched by the filter.\<close>

datatype reason =
  PremiumBrand string | Discount rat | HighActivity int | EndsSoon | AttractivePrice

record auction =
  ebay_id :: "string option"
  title :: "string option"
  url :: "string option"
  current_price :: "rat option"
  bids :: "int option"
  time_remaining :: "string option"
  time_remaining_hours :: "rat option"
  shipping_text :: "string option"
  brand :: "string option"
  scraped_at :: "nat option"
  original_price :: "rat option"
  discount_percent :: "rat option"
  filter_reason :: "reason list option"
  interest_score :: "rat option"

definition patterns :: "(string \<Rightarrow> string option) list" where
  "patterns =
     [lit_run ''/itm/'' (\<lambda>c. c \<notin> set ''/?&'') 1,
      lit_run ''item='' is_digit 1,
      lit_run ''/'' is_digit 12,
      lit_run ''hash=item'' is_digit 1]"

fun first_id :: "(string \<Rightarrow> string option) list \<Rightarrow> string \<Rightarrow> string option" where
  "first_id [] link = None"
| "first_id (pattern # rest) link =
     (case re_search pattern link of
        None \<Rightarrow> first_id rest link
      | Some item_id \<Rightarrow>
          if isdigit item_id \<and> 8 \<le> length item_id then Some item_id else first_id rest link)"

definition extract_ebay_id :: "string \<Rightarrow> string option" where
  "extract_ebay_id link =
     (if link = [] \<or> \<not> contains ''ebay.com'' (lower link) then None
      else first_id patterns link)"

text \<open>\<^verbatim>\<open>_parse_bid_info\<close> returns the pair of \<^verbatim>\<open>bids\<close> and \<^verbatim>\<open>bid_text\<close>.\<close>

definition parse_bid_info :: "item_soup \<Rightarrow> int \<times> string" where
  "parse_bid_info item =
     (case or_else (span_s_item_bidCount item) (or_else (span_bid item) (span_bid_string item)) of
        Inl e \<Rightarrow> (0, [])
      | Inr None \<Rightarrow> (0, ''Buy It Now'')
      | Inr (Some bid_elem) \<Rightarrow>
          (let bid_text = get_text bid_elem
           in case re_search (lit_run [] is_digit 1) bid_text of
                None \<Rightarrow> (0, bid_text)
              | Some g \<Rightarrow> (int (int_of_digits g), bid_text)))"

definition invalid_titles :: "string list" where
  "invalid_titles =
     [''shop on ebay'', ''shop on ebayopens in a new window or tab'',
      ''save this search'', ''get an alert with the newest ads'',
      ''sponsored'', ''advertisement'', []]"

text \<open>
  The body of the \<^verbatim>\<open>try\<close> of \<^verbatim>\<open>_parse_auction_item\<close>; \<open>now\<close> is what
  \<^verbatim>\<open>datetime.now()\<close> returns.
\<close>

definition parse_auction_item_body :: "nat \<Rightarrow> item_soup \<Rightarrow> exn + auction option" where
  "parse_auction_item_body now item =
     (case or_else (h3_s_item_title item) (or_else (h3_title item) (a_link item)) of
        Inl e \<Rightarrow> Inl e
      | Inr None \<Rightarrow> Inr None
      | Inr (Some title_elem) \<Rightarrow>
     (let title_text = get_text title_elem
      in if title_text = [] \<or> list_ex (\<lambda>invalid. contains invalid (lower title_text)) invalid_titles
         then Inr None
         else
     (case or_else (find_a title_elem) (or_else (a_s_item_link item) (a_href item)) of
        Inl e \<Rightarrow> Inl e
      | Inr None \<Rightarrow> Inr None
      | Inr (Some link_elem) \<Rightarrow>
     (let link_url = (case href link_elem of None \<Rightarrow> [] | Some u \<Rightarrow> u)
      in case extract_ebay_id link_url of
        None \<Rightarrow> Inr None
      | Some item_id \<Rightarrow>
     (case or_else (span_s_item_price item) (or_else (span_price item) (span_dollar item)) of
        Inl e \<Rightarrow> Inl e
      | Inr None \<Rightarrow> Inr None
      | Inr (Some price_elem) \<Rightarrow>
     (case parse_price (get_text price_elem) of
        None \<Rightarrow> Inr None
      | Some price \<Rightarrow>
     (let bid_info = parse_bid_info item
      in case or_else (span_s_item_time_left item)
                (or_else (span_time item) (span_dhm_string item)) of
        Inl e \<Rightarrow> Inl e
      | Inr time_elem \<Rightarrow>
     (let time_text = (case time_elem of None \<Rightarrow> ''Unknown'' | Some t \<Rightarrow> get_text t);
          time_text = (if time_text = ''Unknown'' then ''Buy It Now'' else time_text)
      in case span_s_item_shipping item of
        Inl e \<Rightarrow> Inl e
      | Inr shipping_elem \<Rightarrow>
          Inr (Some \<lparr>ebay_id = Some item_id,
                     title = Some title_text,
                     url = Some link_url,
                     current_price = Some price,
                     bids = Some (fst bid_info),
                     time_remaining = Some time_text,
                     time_remaining_hours = Some (parse_time_remaining (Some time_text)),
                     shipping_text =
                       Some (case shipping_elem of None \<Rightarrow> [] | Some t \<Rightarrow> get_text t),
                     brand = extract_brand title_text,
                     scraped_at = Some now,
                     original_price = None,
                     discount_percent = None,
                     filter_reason = None,
                     interest_score = None\<rparr>)))))))))"

definition parse_auction_item :: "nat \<Rightarrow> item_soup \<Rightarrow> auction option" where
  "parse_auction_item now item =
     (case parse_auction_item_body now item of Inl e \<Rightarrow> None | Inr auction_data \<Rightarrow> auction_data)"

text \<open>
  The loop of \<^verbatim>\<open>search_auctions\<close> over the fragments, each paired with the time of its
  extraction; the accumulator is \<^verbatim>\<open>auctions\<close>.
\<close>

fun parse_items :: "(nat \<times> item_soup) list \<Rightarrow> auction list \<Rightarrow> auction list" where
  "parse_items [] auctions = auctions"
| "parse_items ((now, item) # rest) auctions =
     (case parse_auction_item now item of
        None \<Rightarrow> parse_items rest auctions
      | Some auction_data \<Rightarrow> parse_items rest (auctions @ [auction_data]))"

section \<open>Configuration\<close>

text \<open>
  The fields of the \<^verbatim>\<open>Config\<close> dataclass come first. The last seven fields are the
  attributes that \<^verbatim>\<open>filters.py\<close> reads from its configuration object: \<open>None\<close> when the
  object has no such attribute, so that reading it raises \<^verbatim>\<open>AttributeError\<close>.
\<close>

record config =
  TELEGRAM_BOT_TOKEN :: string
  TELEGRAM_CHAT_ID :: string
  EBAY_SEARCH_URL :: string
  SEARCH_QUERY :: string
  CATEGORY_ID :: string
  REQUEST_DELAY :: rat
  REQUEST_TIMEOUT :: int
  HEADERS :: "(string \<times> string) list"
  MIN_PRICE :: "rat option"
  MAX_PRICE :: "rat option"
  PREMIUM_BRANDS :: "string list option"
  MAX_TIME_REMAINING_HOURS :: "rat option"
  MIN_BIDS :: "int option"
  EXCLUDE_KEYWORDS :: "string list option"
  MIN_DISCOUNT_PERCENT :: "rat option"

text \<open>
  \<^verbatim>\<open>Config()\<close>: the dataclass defines eight fields, two of them read from the
  environment (the arguments here), and none of the attributes of the filter.
\<close>

definition Config :: "string \<Rightarrow> string \<Rightarrow> config" where
  "Config token chat_id =
     \<lparr>TELEGRAM_BOT_TOKEN = token,
      TELEGRAM_CHAT_ID = chat_id,
      EBAY_SEARCH_URL = ''https://www.ebay.com/sch/i.html'',
      SEARCH_QUERY = ''laptop'',
      CATEGORY_ID = ''0'',
      REQUEST_DELAY = 1,
      REQUEST_TIMEOUT = 10,
      HEADERS =
        [(''User-Agent'', ''Mozilla/5.0 (Windows NT 10.0; Win64; x64) AppleWebKit/537.36 (KHTML, like Gecko) Chrome/91.0.4472.124 Safari/537.36''),
         (''Accept'', ''text/html,application/xhtml+xml,application/xml;q=0.9,image/webp,*/*;q=0.8''),
         (''Accept-Language'', ''en-US,en;q=0.5''),
         (''Accept-Encoding'', ''gzip, deflate''),
         (''Connection'', ''keep-alive''),
         (''Upgrade-Insecure-Requests'', ''1'')],
      MIN_PRICE = None,
      MAX_PRICE = None,
      PREMIUM_BRANDS = None,
      MAX_TIME_REMAINING_HOURS = None,
      MIN_BIDS = None,
      EXCLUDE_KEYWORDS = None,
      MIN_DISCOUNT_PERCENT = None\<rparr>"

text \<open>Reading the attribute \<open>name\<close>, whose field holds \<open>v\<close>.\<close>

definition getattr :: "string \<Rightarrow> 'a option \<Rightarrow> exn + 'a" where
  "getattr name v = (case v of None \<Rightarrow> Inl (AttributeError name) | Some x \<Rightarrow> Inr x)"

section \<open>InterestFilter\<close>

text \<open>
  The \<^verbatim>\<open>auction.get(key, default)\<close> of the filter. A key that holds \<^verbatim>\<open>None\<close> is
  modelled as an absent key: this is exact for \<^verbatim>\<open>get('brand')\<close> and
  \<^verbatim>\<open>get('original_price')\<close>; \<^verbatim>\<open>get('brand', '')\<close> is evaluated only after the brand
  check has passed, when the brand is set.
\<close>

definition get_current_price :: "auction \<Rightarrow> rat" where
  "get_current_price a = (case current_price a of None \<Rightarrow> 0 | Some p \<Rightarrow> p)"

definition get_title :: "auction \<Rightarrow> string" where
  "get_title a = (case title a of None \<Rightarrow> [] | Some t \<Rightarrow> t)"

definition get_bids :: "auction \<Rightarrow> int" where
  "get_bids a = (case bids a of None \<Rightarrow> 0 | Some n \<Rightarrow> n)"

definition get_time_remaining_hours :: "auction \<Rightarrow> rat" where
  "get_time_remaining_hours a = (case time_remaining_hours a of None \<Rightarrow> 999 | Some h \<Rightarrow> h)"

definition get_brand :: "auction \<Rightarrow> string" where
  "get_brand a = (case brand a of None \<Rightarrow> [] | Some b \<Rightarrow> b)"

definition get_discount_percent :: "auction \<Rightarrow> rat" where
  "get_discount_percent a = (case discount_percent a of None \<Rightarrow> 0 | Some d \<Rightarrow> d)"

definition get_interest_score :: "auction \<Rightarrow> rat" where
  "get_interest_score a = (case interest_score a of None \<Rightarrow> 0 | Some s \<Rightarrow> s)"

text \<open>
  The chained comparison reads \<^verbatim>\<open>MIN_PRICE\<close> first and \<^verbatim>\<open>MAX_PRICE\<close> only when the
  first comparison holds.
\<close>

definition price_in_range :: "config \<Rightarrow> auction \<Rightarrow> exn + bool" where
  "price_in_range cfg a =
     (let price = get_current_price a
      in case getattr ''MIN_PRICE'' (MIN_PRICE cfg) of
           Inl e \<Rightarrow> Inl e
         | Inr lo \<Rightarrow>
             if lo \<le> price
             then (case getattr ''MAX_PRICE'' (MAX_PRICE cfg) of
                     Inl e \<Rightarrow> Inl e
                   | Inr hi \<Rightarrow> Inr (price \<le> hi))
             else Inr False)"

text \<open>The loop of \<^verbatim>\<open>_is_premium_brand\<close> over \<^verbatim>\<open>PREMIUM_BRANDS\<close>.\<close>

fun find_premium :: "string list \<Rightarrow> string \<Rightarrow> string option" where
  "find_premium [] title_lower = None"
| "find_premium (premium_brand # rest) title_lower =
     (if contains (lower premium_brand) title_lower then Some premium_brand
      else find_premium rest title_lower)"

text \<open>The functions that write to the record return it with their result.\<close>

definition is_premium_brand :: "config \<Rightarrow> auction \<Rightarrow> exn + bool \<times> auction" where
  "is_premium_brand cfg a =
     (let title_lower = lower (get_title a)
      in if brand a \<noteq> None \<and> brand a \<noteq> Some []
         then (case getattr ''PREMIUM_BRANDS'' (PREMIUM_BRANDS cfg) of
                 Inl e \<Rightarrow> Inl e
               | Inr premium \<Rightarrow> Inr (get_brand a \<in> set premium, a))
         else (case getattr ''PREMIUM_BRANDS'' (PREMIUM_BRANDS cfg) of
                 Inl e \<Rightarrow> Inl e
               | Inr premium \<Rightarrow>
                   (case find_premium premium title_lower of
                      None \<Rightarrow> Inr (False, a)
                    | Some premium_brand \<Rightarrow> Inr (True, a\<lparr>brand := Some premium_brand\<rparr>))))"

definition time_remaining_valid :: "config \<Rightarrow> auction \<Rightarrow> exn + bool" where
  "time_remaining_valid cfg a =
     (let time_hours = get_time_remaining_hours a
      in if 0 < time_hours
         then (case getattr ''MAX_TIME_REMAINING_HOURS'' (MAX_TIME_REMAINING_HOURS cfg) of
                 Inl e \<Rightarrow> Inl e
               | Inr hi \<Rightarrow> Inr (time_hours \<le> hi))
         else Inr False)"

definition has_minimum_activity :: "config \<Rightarrow> auction \<Rightarrow> exn + bool" where
  "has_minimum_activity cfg a =
     (case getattr ''MIN_BIDS'' (MIN_BIDS cfg) of
        Inl e \<Rightarrow> Inl e
      | Inr min_bids \<Rightarrow> Inr (min_bids \<le> get_bids a))"

text \<open>The loop of \<^verbatim>\<open>_has_excluded_keywords\<close>.\<close>

fun any_keyword :: "string list \<Rightarrow> string \<Rightarrow> bool" where
  "any_keyword [] title_lower = False"
| "any_keyword (keyword # rest) title_lower =
     (if contains (lower keyword) title_lower then True else any_keyword rest title_lower)"

definition has_excluded_keywords :: "config \<Rightarrow> auction \<Rightarrow> exn + bool" where
  "has_excluded_keywords cfg a =
     (let title_lower = lower (get_title a)
      in case getattr ''EXCLUDE_KEYWORDS'' (EXCLUDE_KEYWORDS cfg) of
           Inl e \<Rightarrow> Inl e
         | Inr keywords \<Rightarrow> Inr (any_keyword keywords title_lower))"

definition premium_brands :: "string list" where
  "premium_brands = [''MacBook'', ''ThinkPad'', ''XPS'', ''Surface'']"

definition alternative_value_check :: "config \<Rightarrow> auction \<Rightarrow> exn + bool" where
  "alternative_value_check cfg a =
     (let price = get_current_price a; n = get_bids a; b = get_brand a
      in if list_ex (\<lambda>pb. contains pb b) premium_brands \<and> price \<le> 1500 \<and> 5 \<le> n
         then Inr True
         else if price \<le> 800
         then (case getattr ''MIN_BIDS'' (MIN_BIDS cfg) of
                 Inl e \<Rightarrow> Inl e
               | Inr min_bids \<Rightarrow> Inr (min_bids \<le> n))
         else Inr False)"

text \<open>
  \<^verbatim>\<open>not original_price\<close> holds for an absent price and for the price \<open>0\<close>.
\<close>

definition has_good_discount :: "config \<Rightarrow> auction \<Rightarrow> exn + bool \<times> auction" where
  "has_good_discount cfg a =
     (let price = get_current_price a
      in case original_price a of
           None \<Rightarrow>
             (case alternative_value_check cfg a of Inl e \<Rightarrow> Inl e | Inr ok \<Rightarrow> Inr (ok, a))
         | Some original \<Rightarrow>
             if original = 0 \<or> original \<le> price
             then (case alternative_value_check cfg a of Inl e \<Rightarrow> Inl e | Inr ok \<Rightarrow> Inr (ok, a))
             else (let discount = fmul (fdiv (fsub original price) original) 100;
                       a = a\<lparr>discount_percent := Some discount\<rparr>
                   in case getattr ''MIN_DISCOUNT_PERCENT'' (MIN_DISCOUNT_PERCENT cfg) of
                        Inl e \<Rightarrow> Inl e
                      | Inr min_discount \<Rightarrow> Inr (min_discount \<le> discount, a)))"

definition is_auction_interesting :: "config \<Rightarrow> auction \<Rightarrow> exn + bool \<times> auction" where
  "is_auction_interesting cfg a =
     (case price_in_range cfg a of
        Inl e \<Rightarrow> Inl e
      | Inr in_range \<Rightarrow>
     if \<not> in_range then Inr (False, a) else
     (case is_premium_brand cfg a of
        Inl e \<Rightarrow> Inl e
      | Inr (premium, a) \<Rightarrow>
     if \<not> premium then Inr (False, a) else
     (case time_remaining_valid cfg a of
        Inl e \<Rightarrow> Inl e
      | Inr valid \<Rightarrow>
     if \<not> valid then Inr (False, a) else
     (case has_minimum_activity cfg a of
        Inl e \<Rightarrow> Inl e
      | Inr active \<Rightarrow>
     if \<not> active then Inr (False, a) else
     (case has_excluded_keywords cfg a of
        Inl e \<Rightarrow> Inl e
      | Inr excluded \<Rightarrow>
     if excluded then Inr (False, a) else
     (case has_good_discount cfg a of
        Inl e \<Rightarrow> Inl e
      | Inr (good, a) \<Rightarrow>
     if \<not> good then Inr (False, a) else Inr (True, a)))))))"

definition premium_bonus :: "(string \<times> rat) list" where
  "premium_bonus =
     [(''MacBook'', 3), (''ThinkPad'', 2), (''XPS'', 2), (''Surface'', 2), (''Alienware'', 3)]"

text \<open>The loop over \<^verbatim>\<open>premium_bonus.items()\<close>, left at the first match.\<close>

fun add_bonus :: "(string \<times> rat) list \<Rightarrow> string \<Rightarrow> rat \<Rightarrow> rat" where
  "add_bonus [] b score = score"
| "add_bonus ((premium, bonus) # rest) b score =
     (if contains premium b then fadd score bonus else add_bonus rest b score)"

text \<open>
  \<^verbatim>\<open>bids / 2\<close> divides two \<^verbatim>\<open>int\<close>s and can raise; the other operations are on
  floats.
\<close>

definition calculate_interest_score :: "auction \<Rightarrow> exn + rat" where
  "calculate_interest_score a =
     (let score = 0;
          discount = get_discount_percent a;
          score = (if 0 < discount then fadd score (fdiv discount 10) else score);
          n = get_bids a
      in case truediv n 2 of
           Inl e \<Rightarrow> Inl e
         | Inr half \<Rightarrow>
     (let score = fadd score (min half 10);
          time_hours = get_time_remaining_hours a;
          score = (if time_hours \<le> 1 then fadd score 5
                   else if time_hours \<le> 2 then fadd score 3
                   else if time_hours \<le> 3 then fadd score 1
                   else score);
          score = add_bonus premium_bonus (get_brand a) score;
          price = get_current_price a;
          score = (if price \<le> 500 then fadd score 3
                   else if price \<le> 800 then fadd score 2
                   else if price \<le> 1200 then fadd score 1
                   else score)
      in Inr (round2 score)))"

text \<open>
  The reasons are kept as data; the source formats each of them into a sentence.
\<close>

definition get_filter_reasons :: "config \<Rightarrow> auction \<Rightarrow> exn + reason list" where
  "get_filter_reasons cfg a =
     (let reasons = [];
          reasons = (if brand a \<noteq> None \<and> brand a \<noteq> Some []
                     then reasons @ [PremiumBrand (get_brand a)] else reasons);
          reasons = (case discount_percent a of
                       None \<Rightarrow> reasons
                     | Some discount \<Rightarrow>
                         if discount \<noteq> 0 \<and> 0 < discount then reasons @ [Discount discount]
                         else reasons);
          n = get_bids a
      in case getattr ''MIN_BIDS'' (MIN_BIDS cfg) of
           Inl e \<Rightarrow> Inl e
         | Inr min_bids \<Rightarrow>
             (let reasons = (if min_bids \<le> n then reasons @ [HighActivity n] else reasons);
                  reasons = (if get_time_remaining_hours a \<le> 1 then reasons @ [EndsSoon]
                             else reasons);
                  reasons = (if get_current_price a \<le> 500 then reasons @ [AttractivePrice]
                             else reasons)
              in Inr reasons))"

text \<open>
  The body of the \<^verbatim>\<open>try\<close> in the loop of \<^verbatim>\<open>filter_interesting_auctions\<close>: \<open>Inr None\<close>
  for a record that is not interesting, \<open>Inr (Some a)\<close> for the enriched record that is
  appended.
\<close>

definition evaluate :: "config \<Rightarrow> auction \<Rightarrow> exn + auction option" where
  "evaluate cfg a =
     (case is_auction_interesting cfg a of
        Inl e \<Rightarrow> Inl e
      | Inr (interesting, a) \<Rightarrow>
          if interesting
          then (case get_filter_reasons cfg a of
                  Inl e \<Rightarrow> Inl e
                | Inr reasons \<Rightarrow>
                    (let a = a\<lparr>filter_reason := Some reasons\<rparr>
                     in case calculate_interest_score a of
                          Inl e \<Rightarrow> Inl e
                        | Inr score \<Rightarrow> Inr (Some (a\<lparr>interest_score := Some score\<rparr>))))
          else Inr None)"

text \<open>The loop; the accumulator is \<^verbatim>\<open>interesting_auctions\<close>. The handler only logs.\<close>

fun filter_loop :: "config \<Rightarrow> auction list \<Rightarrow> auction list \<Rightarrow> auction list" where
  "filter_loop cfg [] interesting = interesting"
| "filter_loop cfg (a # rest) interesting =
     (case evaluate cfg a of
        Inl e \<Rightarrow> filter_loop cfg rest interesting
      | Inr None \<Rightarrow> filter_loop cfg rest interesting
      | Inr (Some a') \<Rightarrow> filter_loop cfg rest (interesting @ [a']))"

text \<open>
  \<^verbatim>\<open>xs.sort(key=k, reverse=True)\<close>: the list is reversed, sorted by a stable sort and
  reversed again, which keeps records with equal keys in their order.
\<close>

definition sort_reverse :: "('a \<Rightarrow> rat) \<Rightarrow> 'a list \<Rightarrow> 'a list" where
  "sort_reverse k xs = rev (sort_key k (rev xs))"

definition filter_interesting_auctions :: "config \<Rightarrow> auction list \<Rightarrow> auction list" where
  "filter_interesting_auctions cfg auctions =
     sort_reverse get_interest_score (filter_loop cfg auctions [])"

section \<open>Notions of the specification\<close>

text \<open>
  The cleaned price text: every character that is not a digit, a dot or a comma is
  stripped, then the commas are removed.
\<close>

definition clean_price :: "string \<Rightarrow> string" where
  "clean_price s =
     filter (\<lambda>c. c \<noteq> CHR '','') (filter (\<lambda>c. is_digit c \<or> c = CHR ''.'' \<or> c = CHR '','') s)"

text \<open>
  A cleaned text is a decimal number when it has at most one dot and at least one digit;
  its value is the number written by its digits, scaled by the number of digits after the
  dot.
\<close>

definition is_decimal :: "string \<Rightarrow> bool" where
  "is_decimal c = (length (filter (\<lambda>x. x = CHR ''.'') c) \<le> 1 \<and> list_ex is_digit c)"

definition decimal_value :: "string \<Rightarrow> rat" where
  "decimal_value c =
     (if CHR ''.'' \<in> set c
      then of_nat (int_of_digits (filter is_digit c)) / 10 ^ length (takeWhile is_digit (rev c))
      else of_nat (int_of_digits c))"

text \<open>
  What one pass of the loop of the filter appends for a record: the enriched record, or
  nothing when the record is not interesting or its evaluation raises.
\<close>

definition survivor :: "config \<Rightarrow> auction \<Rightarrow> auction option" where
  "survivor cfg a = (case evaluate cfg a of Inl e \<Rightarrow> None | Inr r \<Rightarrow> r)"

text \<open>
  The summands of the score, in the order in which they are added. A bonus that does not
  apply adds nothing, which for floats is the same as adding zero. The sum is a float sum
  from the left, starting at \<open>0.0\<close>.
\<close>

definition discount_term :: "auction \<Rightarrow> rat list" where
  "discount_term r =
     (if 0 < get_discount_percent r then [fdiv (get_discount_percent r) 10] else [])"

definition bid_term :: "auction \<Rightarrow> rat list" where
  "bid_term r = [min (fl (of_int (get_bids r) / 2)) 10]"

definition urgency_term :: "auction \<Rightarrow> rat list" where
  "urgency_term r =
     (if get_time_remaining_hours r \<le> 1 then [5]
      else if get_time_remaining_hours r \<le> 2 then [3]
      else if get_time_remaining_hours r \<le> 3 then [1]
      else [])"

definition brand_term :: "auction \<Rightarrow> rat list" where
  "brand_term r =
     (if contains ''MacBook'' (get_brand r) then [3]
      else if contains ''ThinkPad'' (get_brand r) then [2]
      else if contains ''XPS'' (get_brand r) then [2]
      else if contains ''Surface'' (get_brand r) then [2]
      else if contains ''Alienware'' (get_brand r) then [3]
      else [])"

definition price_term :: "auction \<Rightarrow> rat list" where
  "price_term r =
     (if get_current_price r \<le> 500 then [3]
      else if get_current_price r \<le> 800 then [2]
      else if get_current_price r \<le> 1200 then [1]
      else [])"

definition score_terms :: "auction \<Rightarrow> rat list" where
  "score_terms r = discount_term r @ bid_term r @ urgency_term r @ brand_term r @ price_term r"

definition float_sum :: "rat list \<Rightarrow> rat" where
  "float_sum xs = foldl fadd 0 xs"


text \<open>
  The discount check: when an original price is present and exceeds the current price,
  the discount, computed in floats, is stored and reaches the minimum; otherwise the
  value heuristic holds.
\<close>

definition discount_of :: "rat \<Rightarrow> rat \<Rightarrow> rat" where
  "discount_of original price = fmul (fdiv (fsub original price) original) 100"



section \<open>Example policies and records\<close>

text \<open>The policy and the first listing of the end-to-end scenario of the specification.\<close>

definition example_policy :: config where
  "example_policy =
     (Config [] [])\<lparr>MIN_PRICE := Some 100, MAX_PRICE := Some 1500,
       PREMIUM_BRANDS := Some [''MacBook''], MAX_TIME_REMAINING_HOURS := Some 48,
       MIN_BIDS := Some 3, EXCLUDE_KEYWORDS := Some [], MIN_DISCOUNT_PERCENT := Some 10\<rparr>"

definition example_auction :: auction where
  "example_auction =
     \<lparr>ebay_id = Some ''123456789012'', title = Some ''Apple MacBook Pro 16'',
      url = Some ''https://www.ebay.com/itm/123456789012'', current_price = Some 450,
      bids = Some 8, time_remaining = Some ''2h 15m'', time_remaining_hours = Some (9 / 4),
      shipping_text = Some [], brand = Some ''MacBook'', scraped_at = Some 0,
      original_price = None, discount_percent = None, filter_reason = None,
      interest_score = None\<rparr>"

definition example_survivor :: auction where
  "example_survivor =
     example_auction\<lparr>filter_reason :=
         Some [PremiumBrand ''MacBook'', HighActivity 8, AttractivePrice],
       interest_score := Some 11\<rparr>"

text \<open>
  A listing at 103 with the original price 400 and no brand detected: the brand is
  backfilled from the title and the discount of 74.25 percent is stored. The float sum of
  its score is just above 18.425, and the score is the float 18.43.
\<close>

definition backfill_auction :: auction where
  "backfill_auction =
     example_auction\<lparr>title := Some ''APPLE macbook PRO 16'', brand := None,
       current_price := Some 103, original_price := Some 400\<rparr>"

definition backfill_survivor :: auction where
  "backfill_survivor =
     backfill_auction\<lparr>brand := Some ''MacBook'', discount_percent := Some (297 / 4),
       filter_reason :=
         Some [PremiumBrand ''MacBook'', Discount (297 / 4), HighActivity 8, AttractivePrice],
       interest_score := Some (fl (1843 / 100))\<rparr>"

text \<open>
  Two more listings: one with fewer bids and so a lower score, and one that differs from
  the example only in its identifier and so ties with it.
\<close>

definition low_auction :: auction where
  "low_auction = example_auction\<lparr>ebay_id := Some ''111111111111'', bids := Some 3\<rparr>"

definition low_survivor :: auction where
  "low_survivor =
     low_auction\<lparr>filter_reason :=
         Some [PremiumBrand ''MacBook'', HighActivity 3, AttractivePrice],
       interest_score := Some (17 / 2)\<rparr>"

definition tie_auction :: auction where
  "tie_auction = example_auction\<lparr>ebay_id := Some ''222222222222''\<rparr>"

definition tie_survivor :: auction where
  "tie_survivor =
     tie_auction\<lparr>filter_reason :=
         Some [PremiumBrand ''MacBook'', HighActivity 8, AttractivePrice],
       interest_score := Some 11\<rparr>"

text \<open>A policy without \<open>MIN_DISCOUNT_PERCENT\<close>, and a record whose discount check reads it.\<close>

definition partial_policy :: config where
  "partial_policy = example_policy\<lparr>MIN_DISCOUNT_PERCENT := None\<rparr>"

definition discounted_auction :: auction where
  "discounted_auction = example_auction\<lparr>original_price := Some 900\<rparr>"

text \<open>A fragment whose first lookup raises.\<close>

definition raising_item :: item_soup where
  "raising_item =
     \<lparr>h3_s_item_title = Inl LibraryError, h3_title = Inr None, a_link = Inr None,
      a_s_item_link = Inr None, a_href = Inr None,
      span_s_item_price = Inr None, span_price = Inr None, span_dollar = Inr None,
      span_s_item_bidCount = Inr None, span_bid = Inr None, span_bid_string = Inr None,
      span_s_item_time_left = Inr None, span_time = Inr None, span_dhm_string = Inr None,
      span_s_item_shipping = Inr None\<rparr>"

section \<open>Properties of the string functions\<close>

lemma starts_with_iff: "starts_with p s \<longleftrightarrow> (\<exists>post. s = p @ post)"
  by (induction p s rule: starts_with.induct) auto

text \<open>\<open>contains\<close> is the substring relation.\<close>

lemma contains_iff: "contains needle hay \<longleftrightarrow> (\<exists>pre post. hay = pre @ needle @ post)"
proof (induction hay)
  case Nil
  then show ?case by auto
next
  case (Cons c cs)
  show ?case
  proof
    assume "contains needle (c # cs)"
    then consider "starts_with needle (c # cs)" | "contains needle cs" by auto
    then show "\<exists>pre post. c # cs = pre @ needle @ post"
    proof cases
      case 1
      then obtain post where "c # cs = needle @ post" by (auto simp: starts_with_iff)
      then have "c # cs = [] @ needle @ post" by simp
      then show ?thesis by blast
    next
      case 2
      then obtain pre post where "cs = pre @ needle @ post" using Cons.IH by auto
      then have "c # cs = (c # pre) @ needle @ post" by simp
      then show ?thesis by blast
    qed
  next
    assume "\<exists>pre post. c # cs = pre @ needle @ post"
    then obtain pre post where eq: "c # cs = pre @ needle @ post" by blast
    show "contains needle (c # cs)"
    proof (cases pre)
      case Nil
      then have "starts_with needle (c # cs)" using eq by (auto simp: starts_with_iff)
      then show ?thesis by simp
    next
      case (Cons a pre')
      then have "cs = pre' @ needle @ post" using eq by simp
      then have "contains needle cs" using Cons.IH by blast
      then show ?thesis by simp
    qed
  qed
qed

lemma contains_Nil: "contains [] s"
  by (cases s) auto

section \<open>BrandDetector and PriceParser\<close>

lemma first_brand_find: "first_brand bs t = find (\<lambda>b. contains (lower b) t) bs"
  by (induction bs) auto

lemma extract_brand_char:
  "(extract_brand t = None \<longleftrightarrow> (\<forall>b\<in>set brands. \<not> contains (lower b) (lower t))) \<and>
   (\<forall>b. extract_brand t = Some b \<longleftrightarrow>
      (\<exists>i<length brands. brands ! i = b \<and> contains (lower b) (lower t) \<and>
         (\<forall>j<i. \<not> contains (lower (brands ! j)) (lower t))))"
  unfolding extract_brand_def first_brand_find
  by (auto simp: find_None_iff find_Some_iff)

lemma foldl_digits:
  "foldl (\<lambda>n c. 10 * n + digit_val c) n b =
     n * 10 ^ length b + foldl (\<lambda>n c. 10 * n + digit_val c) 0 b"
proof (induction b arbitrary: n)
  case Nil
  then show ?case by simp
next
  case (Cons x b)
  have "foldl (\<lambda>n c. 10 * n + digit_val c) n (x # b) =
          foldl (\<lambda>n c. 10 * n + digit_val c) (10 * n + digit_val x) b"
    by simp
  also have "\<dots> = (10 * n + digit_val x) * 10 ^ length b
          + foldl (\<lambda>n c. 10 * n + digit_val c) 0 b"
    by (rule Cons.IH)
  finally have l: "foldl (\<lambda>n c. 10 * n + digit_val c) n (x # b) =
      (10 * n + digit_val x) * 10 ^ length b + foldl (\<lambda>n c. 10 * n + digit_val c) 0 b" .
  have "foldl (\<lambda>n c. 10 * n + digit_val c) 0 (x # b) =
          foldl (\<lambda>n c. 10 * n + digit_val c) (digit_val x) b"
    by simp
  also have "\<dots> = digit_val x * 10 ^ length b + foldl (\<lambda>n c. 10 * n + digit_val c) 0 b"
    by (rule Cons.IH)
  finally have r: "foldl (\<lambda>n c. 10 * n + digit_val c) 0 (x # b) =
      digit_val x * 10 ^ length b + foldl (\<lambda>n c. 10 * n + digit_val c) 0 b" .
  show ?case unfolding l r by (simp add: algebra_simps)
qed

lemma int_of_digits_append:
  "int_of_digits (a @ b) = int_of_digits a * 10 ^ length b + int_of_digits b"
  unfolding int_of_digits_def using foldl_digits [of "foldl (\<lambda>n c. 10 * n + digit_val c) 0 a" b]
  by simp

lemma not_digit_dot: "\<not> is_digit CHR ''.''"
  by (simp add: is_digit_def)

lemma clean_price_chars: "list_all (\<lambda>x. is_digit x \<or> x = CHR ''.'') (clean_price s)"
  by (auto simp: clean_price_def list_all_iff)

lemma py_float_digits:
  assumes "list_all is_digit c"
  shows "py_float c = (if c = [] then Inl ValueError else Inr (fl (of_nat (int_of_digits c))))"
proof -
  have t: "takeWhile is_digit c = c" and d: "dropWhile is_digit c = []"
    using assms by (auto simp: list_all_iff)
  show ?thesis unfolding py_float_def Let_def t d by simp
qed

lemma py_float_dot:
  assumes ip: "list_all is_digit ip"
  shows "py_float (ip @ CHR ''.'' # fp) =
     (if list_all is_digit fp \<and> (ip \<noteq> [] \<or> fp \<noteq> [])
      then Inr (fl (of_nat (int_of_digits ip) + of_nat (int_of_digits fp) / 10 ^ length fp))
      else Inl ValueError)"
proof -
  have "takeWhile is_digit (ip @ CHR ''.'' # fp) = ip"
    using ip by (simp add: takeWhile_append2 list_all_iff not_digit_dot)
  moreover have "dropWhile is_digit (ip @ CHR ''.'' # fp) = CHR ''.'' # fp"
    using ip by (simp add: dropWhile_append2 list_all_iff not_digit_dot)
  ultimately show ?thesis unfolding py_float_def Let_def by simp
qed

lemma split_at_dot:
  assumes "list_all (\<lambda>x. is_digit x \<or> x = CHR ''.'') c" "\<not> list_all is_digit c"
  shows "\<exists>ip fp. c = ip @ CHR ''.'' # fp \<and> list_all is_digit ip
           \<and> list_all (\<lambda>x. is_digit x \<or> x = CHR ''.'') fp"
proof -
  let ?ip = "takeWhile is_digit c" and ?r = "dropWhile is_digit c"
  have c: "c = ?ip @ ?r" by simp
  have "?r \<noteq> []" using assms(2) by (auto simp: list_all_iff)
  then obtain x fp where r: "?r = x # fp" by (cases ?r) auto
  have "\<not> is_digit x" using r hd_dropWhile [of is_digit c] \<open>?r \<noteq> []\<close> by auto
  moreover have "x \<in> set c" using r by (metis c in_set_conv_decomp)
  ultimately have x: "x = CHR ''.''" using assms(1) by (auto simp: list_all_iff)
  have "set fp \<subseteq> set c" using r by (metis c set_subset_Cons set_append le_supI2)
  then have "list_all (\<lambda>x. is_digit x \<or> x = CHR ''.'') fp"
    using assms(1) by (auto simp: list_all_iff)
  moreover have "list_all is_digit ?ip" by (auto simp: list_all_iff dest: set_takeWhileD)
  ultimately show ?thesis using c r x by metis
qed

lemma py_float_decimal:
  assumes "list_all (\<lambda>x. is_digit x \<or> x = CHR ''.'') c"
  shows "py_float c = (if is_decimal c then Inr (fl (decimal_value c)) else Inl ValueError)"
proof (cases "list_all is_digit c")
  case True
  then have nodot: "CHR ''.'' \<notin> set c" by (auto simp: list_all_iff not_digit_dot)
  then have "filter (\<lambda>x. x = CHR ''.'') c = []" by (auto simp: filter_empty_conv)
  moreover have "list_ex is_digit c \<longleftrightarrow> c \<noteq> []"
    using True by (cases c) (auto simp: list_ex_iff list_all_iff)
  ultimately show ?thesis
    using True nodot by (simp add: py_float_digits is_decimal_def decimal_value_def)
next
  case False
  then obtain ip fp where c: "c = ip @ CHR ''.'' # fp" and ip: "list_all is_digit ip"
    and fp: "list_all (\<lambda>x. is_digit x \<or> x = CHR ''.'') fp"
    using split_at_dot [OF assms] by blast
  have ipdot: "filter (\<lambda>x. x = CHR ''.'') ip = []"
    using ip by (auto simp: filter_empty_conv list_all_iff not_digit_dot)
  have fpdig: "list_all is_digit fp \<longleftrightarrow> filter (\<lambda>x. x = CHR ''.'') fp = []"
    using fp by (auto simp: filter_empty_conv list_all_iff not_digit_dot)
  have ex: "list_ex is_digit c \<longleftrightarrow> list_ex is_digit ip \<or> list_ex is_digit fp"
    by (auto simp: c list_ex_iff not_digit_dot)
  have ipex: "list_ex is_digit ip \<longleftrightarrow> ip \<noteq> []"
    using ip by (cases ip) (auto simp: list_ex_iff list_all_iff)
  show ?thesis
  proof (cases "list_all is_digit fp")
    case fpd: True
    have fpex: "list_ex is_digit fp \<longleftrightarrow> fp \<noteq> []"
      using fpd by (cases fp) (auto simp: list_ex_iff list_all_iff)
    have dec: "is_decimal c \<longleftrightarrow> ip \<noteq> [] \<or> fp \<noteq> []"
      using fpd fpdig ipdot ex ipex fpex by (simp add: is_decimal_def c)
    have f1: "filter is_digit c = ip @ fp"
      using ip fpd by (simp add: c not_digit_dot list_all_iff)
    have "takeWhile is_digit (rev fp @ CHR ''.'' # rev ip) = takeWhile is_digit (rev fp)"
      by (rule takeWhile_tail) (rule not_digit_dot)
    also have "\<dots> = rev fp"
      using fpd by (simp add: takeWhile_eq_all_conv list_all_iff)
    finally have f2: "takeWhile is_digit (rev c) = rev fp" by (simp add: c)
    have "decimal_value c = of_nat (int_of_digits (ip @ fp)) / 10 ^ length fp"
      by (simp add: decimal_value_def f1 f2) (simp add: c)
    also have "\<dots> = of_nat (int_of_digits ip) + of_nat (int_of_digits fp) / 10 ^ length fp"
      by (simp add: int_of_digits_append field_simps)
    finally show ?thesis using fpd dec by (simp add: c py_float_dot [OF ip])
  next
    case fpd: False
    then have "filter (\<lambda>x. x = CHR ''.'') fp \<noteq> []" using fpdig by simp
    then have "length (filter (\<lambda>x. x = CHR ''.'') fp) \<ge> 1" by (cases "filter (\<lambda>x. x = CHR ''.'') fp") auto
    then have "length (filter (\<lambda>x. x = CHR ''.'') c) \<ge> 2" by (simp add: c)
    then have "\<not> is_decimal c" unfolding is_decimal_def by linarith
    then show ?thesis using fpd by (simp add: c py_float_dot [OF ip])
  qed
qed

lemma parse_price_spec:
  "parse_price s =
     (if is_decimal (clean_price s) then Some (fl (decimal_value (clean_price s))) else None)"
proof -
  have e: "\<not> is_decimal []" by (simp add: is_decimal_def)
  have "parse_price s = (if clean_price s = [] then None
      else (case py_float (clean_price s) of Inl e \<Rightarrow> None | Inr v \<Rightarrow> Some v))"
    by (simp add: parse_price_def clean_price_def Let_def)
  then show ?thesis
    using e by (auto simp: py_float_decimal [OF clean_price_chars])
qed

lemma extract_brand_example: "extract_brand ''Apple MacBook Pro 16'' = Some ''MacBook''"
  by code_simp

lemma extract_brand_mixed_case:
  "extract_brand ''apple MACBOOK pro 16'' = Some ''MacBook''"
  "extract_brand ''DELL xps 13 Touch'' = Some ''XPS''"
  "extract_brand ''Gaming Laptop 16GB RAM'' = None"
  by code_simp+

lemma lower_example: "lower ''Apple MACBOOK Pro 16!'' = ''apple macbook pro 16!''"
  by code_simp

lemma lower_char_idem: "lower_char (lower_char c) = lower_char c"
  by (auto simp: lower_char_def split: if_splits)

lemma lower_idem: "lower (lower s) = lower s"
  by (simp add: lower_def lower_char_idem)

text \<open>
  Claim C9. \<open>extract_brand\<close> returns the first entry of the vocabulary, in its declared
  order, that occurs in the title as a substring when both are lower-cased, and nothing
  when no entry occurs; on \<open>Apple MacBook Pro 16\<close> it returns \<open>MacBook\<close>, not \<open>Apple\<close>.
  The match ignores case: \<open>apple MACBOOK pro 16\<close> gives \<open>MacBook\<close> as well, and
  \<open>DELL xps 13 Touch\<close> gives \<open>XPS\<close>, which precedes \<open>Dell\<close>.
\<close>

theorem extract_brand_first_match:
  "(extract_brand t = None \<longleftrightarrow> (\<forall>b\<in>set brands. \<not> contains (lower b) (lower t))) \<and>
   (\<forall>b. extract_brand t = Some b \<longleftrightarrow>
      (\<exists>i<length brands. brands ! i = b \<and> contains (lower b) (lower t) \<and>
         (\<forall>j<i. \<not> contains (lower (brands ! j)) (lower t)))) \<and>
   brands =
     [''MacBook'', ''ThinkPad'', ''XPS'', ''Surface'', ''Alienware'',
      ''Dell'', ''Lenovo'', ''HP'', ''ASUS'', ''Acer'', ''MSI'',
      ''Apple'', ''Microsoft'', ''Razer'', ''Sony'', ''Toshiba''] \<and>
   lower ''Apple MACBOOK Pro 16!'' = ''apple macbook pro 16!'' \<and>
   extract_brand ''Apple MacBook Pro 16'' = Some ''MacBook'' \<and>
   extract_brand ''apple MACBOOK pro 16'' = Some ''MacBook'' \<and>
   extract_brand ''DELL xps 13 Touch'' = Some ''XPS'' \<and>
   extract_brand ''Gaming Laptop 16GB RAM'' = None"
proof (intro conjI)
  show "extract_brand t = None \<longleftrightarrow> (\<forall>b\<in>set brands. \<not> contains (lower b) (lower t))"
    using extract_brand_char [of t] by blast
  show "\<forall>b. extract_brand t = Some b \<longleftrightarrow>
      (\<exists>i<length brands. brands ! i = b \<and> contains (lower b) (lower t) \<and>
         (\<forall>j<i. \<not> contains (lower (brands ! j)) (lower t)))"
    using extract_brand_char [of t] by blast
  show "brands =
     [''MacBook'', ''ThinkPad'', ''XPS'', ''Surface'', ''Alienware'',
      ''Dell'', ''Lenovo'', ''HP'', ''ASUS'', ''Acer'', ''MSI'',
      ''Apple'', ''Microsoft'', ''Razer'', ''Sony'', ''Toshiba'']"
    by (rule brands_def)
  show "lower ''Apple MACBOOK Pro 16!'' = ''apple macbook pro 16!''"
    by (rule lower_example)
  show "extract_brand ''Apple MacBook Pro 16'' = Some ''MacBook''"
    by (rule extract_brand_example)
  show "extract_brand ''apple MACBOOK pro 16'' = Some ''MacBook''"
    by (rule extract_brand_mixed_case)
  show "extract_brand ''DELL xps 13 Touch'' = Some ''XPS''"
    by (rule extract_brand_mixed_case)
  show "extract_brand ''Gaming Laptop 16GB RAM'' = None"
    by (rule extract_brand_mixed_case)
qed

text \<open>
  On the upper-case title the theorem gives the position of the match: the needle
  \<open>macbook\<close> occurs in the lower-cased title and no earlier entry does.
\<close>

theorem extract_brand_first_match_witness:
  "lower ''MacBook'' = ''macbook'' \<and> lower ''apple MACBOOK pro 16'' = ''apple macbook pro 16'' \<and>
   (\<exists>i<length brands. brands ! i = ''MacBook'' \<and>
      contains ''macbook'' ''apple macbook pro 16'' \<and>
      (\<forall>j<i. \<not> contains (lower (brands ! j)) ''apple macbook pro 16''))"
proof -
  have l: "lower ''MacBook'' = ''macbook''"
    "lower ''apple MACBOOK pro 16'' = ''apple macbook pro 16''"
    by code_simp+
  have e: "extract_brand ''apple MACBOOK pro 16'' = Some ''MacBook''"
    by (rule extract_brand_mixed_case)
  from extract_brand_first_match [of "''apple MACBOOK pro 16''"]
  have "\<forall>b. extract_brand ''apple MACBOOK pro 16'' = Some b \<longleftrightarrow>
      (\<exists>i<length brands. brands ! i = b \<and> contains (lower b) (lower ''apple MACBOOK pro 16'') \<and>
         (\<forall>j<i. \<not> contains (lower (brands ! j)) (lower ''apple MACBOOK pro 16'')))"
    by (elim conjE)
  with e have "\<exists>i<length brands. brands ! i = ''MacBook'' \<and>
      contains (lower ''MacBook'') (lower ''apple MACBOOK pro 16'') \<and>
      (\<forall>j<i. \<not> contains (lower (brands ! j)) (lower ''apple MACBOOK pro 16''))"
    by blast
  then show ?thesis unfolding l using l by blast
qed

lemma digit_val_le: "digit_val c \<le> 9"
  by (simp add: digit_val_def split: option.splits if_splits)

lemma int_of_digits_snoc: "int_of_digits (ds @ [c]) = int_of_digits ds * 10 + digit_val c"
  by (simp add: int_of_digits_def)

lemma int_of_digits_less: "int_of_digits ds < 10 ^ length ds"
proof (induction ds rule: rev_induct)
  case Nil
  then show ?case by (simp add: int_of_digits_def)
next
  case (snoc c ds)
  have "int_of_digits (ds @ [c]) \<le> int_of_digits ds * 10 + 9"
    using digit_val_le [of c] by (simp add: int_of_digits_snoc)
  also have "\<dots> < 10 ^ length (ds @ [c])"
    using snoc.IH by simp
  finally show ?case .
qed

text \<open>The value of a cleaned text is below the power of ten of its length.\<close>

lemma decimal_value_less: "decimal_value c < 10 ^ length c"
proof -
  have d: "rat_of_nat (int_of_digits ds) < 10 ^ length ds" for ds
  proof -
    have "rat_of_nat (int_of_digits ds) < rat_of_nat (10 ^ length ds)"
      using int_of_digits_less [of ds] by (simp only: of_nat_less_iff)
    then show ?thesis by simp
  qed
  show ?thesis
  proof (cases "CHR ''.'' \<in> set c")
    case True
    let ?ds = "filter is_digit c" and ?k = "length (takeWhile is_digit (rev c))"
    have "rat_of_nat (int_of_digits ?ds) / 10 ^ ?k \<le> rat_of_nat (int_of_digits ?ds)"
      by (simp add: divide_le_eq_1 mult_le_cancel_left1 field_simps)
    also have "\<dots> < 10 ^ length ?ds" by (rule d)
    also have "\<dots> \<le> (10 :: rat) ^ length c"
      by (rule power_increasing) simp_all
    finally show ?thesis using True by (simp add: decimal_value_def)
  next
    case False
    then show ?thesis using d [of c] by (simp add: decimal_value_def)
  qed
qed

lemma parse_price_example_1: "parse_price ''$1,234.56'' = Some (fl (123456 / 100))"
  by code_simp

lemma parse_price_example_2: "parse_price ''Free'' = None"
  by code_simp

lemma parse_price_example_3: "parse_price [] = None"
  by code_simp

lemma fl_example: "fl (123456 / 100) = 2714826150374277 / 2199023255552"
  by code_simp

text \<open>
  Claim C8. \<open>parse_price\<close> strips every character that is not a digit, a dot or a comma,
  removes the commas and reads the rest as a decimal number; it returns nothing when the
  cleaned text is empty or not a number. The number is the float nearest to the decimal,
  and a cleaned text of at most 308 characters is below \<open>10\<^sup>3\<^sup>0\<^sup>8\<close>, within the range of
  the floats. It reads \<open>$1,234.56\<close> as the float \<open>1234.56\<close> and returns nothing on \<open>Free\<close>
  and on the empty text.
\<close>

theorem parse_price_decimal:
  "(length (clean_price s) \<le> 308 \<longrightarrow>
      decimal_value (clean_price s) < 10 ^ 308 \<and>
      parse_price s =
        (if is_decimal (clean_price s) then Some (fl (decimal_value (clean_price s)))
         else None)) \<and>
   \<not> is_decimal [] \<and>
   parse_price ''$1,234.56'' = Some (fl (123456 / 100)) \<and>
   fl (123456 / 100) = 2714826150374277 / 2199023255552 \<and>
   parse_price ''Free'' = None \<and>
   parse_price [] = None"
proof (intro conjI impI)
  assume b: "length (clean_price s) \<le> 308"
  have "decimal_value (clean_price s) < 10 ^ length (clean_price s)"
    by (rule decimal_value_less)
  also have "\<dots> \<le> (10 :: rat) ^ 308"
    using b by (intro power_increasing) simp_all
  finally show "decimal_value (clean_price s) < 10 ^ 308" .
next
  show "parse_price s =
     (if is_decimal (clean_price s) then Some (fl (decimal_value (clean_price s))) else None)"
    by (rule parse_price_spec)
  show "\<not> is_decimal []" by (simp add: is_decimal_def)
  show "parse_price ''$1,234.56'' = Some (fl (123456 / 100))" by (rule parse_price_example_1)
  show "fl (123456 / 100) = 2714826150374277 / 2199023255552" by (rule fl_example)
  show "parse_price ''Free'' = None" by (rule parse_price_example_2)
  show "parse_price [] = None" by (rule parse_price_example_3)
qed

lemma clean_price_example: "clean_price ''$1,234.56'' = ''1234.56''"
  by code_simp

theorem parse_price_decimal_witness:
  "length (clean_price ''$1,234.56'') \<le> 308 \<and>
   is_decimal (clean_price ''$1,234.56'') \<and>
   fl (decimal_value (clean_price ''$1,234.56'')) = 2714826150374277 / 2199023255552"
proof -
  let ?c = "clean_price ''$1,234.56''"
  have b: "length ?c \<le> 308"
    by (simp add: clean_price_example)
  note t = parse_price_decimal [of "''$1,234.56''"]
  from t b have eq: "parse_price ''$1,234.56'' =
      (if is_decimal ?c then Some (fl (decimal_value ?c)) else None)"
    by blast
  from t have ex: "parse_price ''$1,234.56'' = Some (fl (123456 / 100))"
    by blast
  from t have v: "fl (123456 / 100) = 2714826150374277 / 2199023255552"
    by blast
  have d: "is_decimal ?c"
    using eq ex by (metis option.distinct(1))
  with eq have "parse_price ''$1,234.56'' = Some (fl (decimal_value ?c))"
    by (simp only: if_True)
  with ex have "fl (decimal_value ?c) = fl (123456 / 100)"
    by (metis option.inject)
  from this v have "fl (decimal_value ?c) = 2714826150374277 / 2199023255552"
    by (rule trans)
  with b d show ?thesis by blast
qed

section \<open>DurationParser\<close>

text \<open>The sentinel is returned by the handler: for an argument that is not text.\<close>

lemma parse_time_remaining_not_text: "parse_time_remaining None = 999"
  by (simp add: parse_time_remaining_def parse_time_remaining_body_def)

text \<open>A text in which no unit matches gives the initial \<open>0.0\<close>.\<close>

lemma parse_time_remaining_no_unit:
  assumes "re_search (digits_unit CHR ''d'') (lower s) = None"
    and "re_search (digits_unit CHR ''h'') (lower s) = None"
    and "re_search (digits_unit CHR ''m'') (lower s) = None"
  shows "parse_time_remaining (Some s) = 0"
  using assms by (simp add: parse_time_remaining_def parse_time_remaining_body_def)

lemma parse_time_remaining_example_1: "parse_time_remaining (Some ''2d 3h 30m'') = 103 / 2"
  by code_simp

lemma parse_time_remaining_example_2: "parse_time_remaining (Some ''5h'') = 5"
  by code_simp

lemma parse_time_remaining_example_3: "parse_time_remaining (Some ''Buy It Now'') = 0"
  by code_simp

text \<open>
  Claim C2. \<open>parse_time_remaining\<close> returns \<open>24 * d + h + m / 60\<close> for the counts of the
  three units, so \<open>2d 3h 30m\<close> gives \<open>51.5\<close> and \<open>5h\<close> gives \<open>5\<close>; but on \<open>Buy It Now\<close>,
  where no unit matches, it returns \<open>0\<close> and not the sentinel \<open>999\<close>.
\<close>

theorem parse_time_remaining_buy_it_now:
  "parse_time_remaining (Some ''2d 3h 30m'') = 103 / 2 \<and>
   parse_time_remaining (Some ''5h'') = 5 \<and>
   parse_time_remaining (Some ''Buy It Now'') = 0 \<and>
   parse_time_remaining (Some ''Buy It Now'') \<noteq> 999"
  by (simp add: parse_time_remaining_example_1 parse_time_remaining_example_2
      parse_time_remaining_example_3)

section \<open>The loop and the sort of the filter\<close>

lemma evaluate_Config: "evaluate (Config token chat_id) a = Inl (AttributeError ''MIN_PRICE'')"
  by (simp add: evaluate_def is_auction_interesting_def price_in_range_def getattr_def Config_def)

lemma filter_loop_survivor:
  "filter_loop cfg xs acc = acc @ List.map_filter (survivor cfg) xs"
proof (induction xs arbitrary: acc)
  case Nil
  then show ?case by (simp add: List.map_filter_simps)
next
  case (Cons a xs)
  show ?case
    by (cases "evaluate cfg a")
      (auto simp: Cons.IH survivor_def List.map_filter_simps split: option.splits)
qed

lemma survivor_Config: "survivor (Config token chat_id) a = None"
  by (simp add: survivor_def evaluate_Config)

lemma map_filter_None: "(\<And>x. f x = None) \<Longrightarrow> List.map_filter f xs = []"
  by (induction xs) (simp_all add: List.map_filter_simps)

text \<open>
  Claim C1. With the configuration of the repository the filter returns the empty list
  for every input: the first predicate reads \<open>MIN_PRICE\<close>, which \<open>Config\<close> does not
  define, so the evaluation of every record raises and the handler drops the record.
\<close>

theorem filter_with_Config_empty: "filter_interesting_auctions (Config token chat_id) auctions = []"
  by (simp add: filter_interesting_auctions_def filter_loop_survivor sort_reverse_def
      map_filter_None survivor_Config)

lemma sort_reverse_sorted:
  "sorted_wrt (\<lambda>a b. k b \<le> k a) (sort_reverse k xs)"
proof -
  have "sorted (map k (sort_key k (rev xs)))" by simp
  then have "sorted_wrt (\<lambda>a b. k a \<le> k b) (sort_key k (rev xs))"
    by (simp add: sorted_map)
  then show ?thesis
    unfolding sort_reverse_def by (simp add: sorted_wrt_rev)
qed

lemma sort_reverse_stable:
  "filter (\<lambda>r. k r = c) (sort_reverse k xs) = filter (\<lambda>r. k r = c) xs"
proof -
  have "filter (\<lambda>r. k r = c) (sort_reverse k xs) = rev (filter (\<lambda>r. k r = c) (sort_key k (rev xs)))"
    by (simp add: sort_reverse_def rev_filter)
  also have "\<dots> = rev (filter (\<lambda>r. k r = c) (rev xs))"
    by (simp only: sort_key_stable)
  also have "\<dots> = filter (\<lambda>r. k r = c) xs"
    by (simp add: rev_filter)
  finally show ?thesis .
qed

lemma set_sort_reverse: "set (sort_reverse k xs) = set xs"
  by (simp add: sort_reverse_def)

lemma sort_reverse_id:
  assumes "sorted_wrt (\<lambda>a b. k b \<le> k a) xs"
  shows "sort_reverse k xs = xs"
proof -
  have "sorted_wrt (\<lambda>a b. k a \<le> k b) (rev xs)"
    using assms by (simp add: sorted_wrt_rev)
  then have "sorted (map k (rev xs))" by (simp add: sorted_map)
  then have "sort_key k (rev xs) = rev xs" by (rule sort_key_id_if_sorted)
  then show ?thesis by (simp add: sort_reverse_def)
qed

section \<open>The predicate cascade and the score\<close>

lemmas getters =
  get_current_price_def get_title_def get_bids_def get_time_remaining_hours_def get_brand_def
  get_discount_percent_def get_interest_score_def






lemma find_premium_Some:
  "find_premium ps t = Some p \<Longrightarrow> p \<in> set ps \<and> contains (lower p) t"
  by (induction ps) (auto split: if_splits)

lemma is_premium_brand_True:
  "is_premium_brand cfg a = Inr (True, a1) \<longleftrightarrow>
     (\<exists>ps. PREMIUM_BRANDS cfg = Some ps \<and>
        ((\<exists>b. brand a = Some b \<and> b \<noteq> [] \<and> b \<in> set ps \<and> a1 = a) \<or>
         ((brand a = None \<or> brand a = Some []) \<and>
          (\<exists>p. find_premium ps (lower (get_title a)) = Some p \<and> a1 = a\<lparr>brand := Some p\<rparr>))))"
  by (auto simp: is_premium_brand_def getattr_def Let_def get_brand_def split: option.splits)


lemma has_good_discount_True:
  "has_good_discount cfg a = Inr (True, a2) \<longleftrightarrow>
     ((original_price a = None \<or> original_price a = Some 0
        \<or> (\<exists>original. original_price a = Some original \<and> original \<le> get_current_price a))
      \<and> alternative_value_check cfg a = Inr True \<and> a2 = a) \<or>
     (\<exists>original md. original_price a = Some original \<and> original \<noteq> 0
        \<and> get_current_price a < original
        \<and> MIN_DISCOUNT_PERCENT cfg = Some md
        \<and> md \<le> discount_of original (get_current_price a)
        \<and> a2 = a\<lparr>discount_percent := Some (discount_of original (get_current_price a))\<rparr>)"
  by (auto simp: has_good_discount_def getattr_def Let_def discount_of_def
      split: option.splits sum.splits)

lemma is_auction_interesting_True:
  "is_auction_interesting cfg a = Inr (True, a2) \<longleftrightarrow>
     price_in_range cfg a = Inr True \<and>
     (\<exists>a1. is_premium_brand cfg a = Inr (True, a1)
        \<and> time_remaining_valid cfg a1 = Inr True
        \<and> has_minimum_activity cfg a1 = Inr True
        \<and> has_excluded_keywords cfg a1 = Inr False
        \<and> has_good_discount cfg a1 = Inr (True, a2))"
  unfolding is_auction_interesting_def
  by (auto split: sum.splits prod.splits if_splits)

lemma evaluate_Some:
  "evaluate cfg a = Inr (Some r) \<longleftrightarrow>
     (\<exists>a2 rs s. is_auction_interesting cfg a = Inr (True, a2)
        \<and> get_filter_reasons cfg a2 = Inr rs
        \<and> calculate_interest_score (a2\<lparr>filter_reason := Some rs\<rparr>) = Inr s
        \<and> r = a2\<lparr>filter_reason := Some rs, interest_score := Some s\<rparr>)"
  unfolding evaluate_def
  by (auto simp: Let_def split: sum.splits prod.splits if_splits)

lemma survivor_Some: "survivor cfg a = Some r \<longleftrightarrow> evaluate cfg a = Inr (Some r)"
  by (auto simp: survivor_def split: sum.splits)

lemma in_set_map_filter:
  "y \<in> set (List.map_filter f xs) \<longleftrightarrow> (\<exists>x\<in>set xs. f x = Some y)"
  by (induction xs) (auto simp: List.map_filter_simps split: option.splits)

lemma in_filter_interesting_auctions:
  "r \<in> set (filter_interesting_auctions cfg auctions) \<longleftrightarrow>
     (\<exists>a\<in>set auctions. survivor cfg a = Some r)"
  by (auto simp: filter_interesting_auctions_def filter_loop_survivor set_sort_reverse
      in_set_map_filter)


lemma add_bonus_terms:
  "add_bonus premium_bonus b score =
     foldl fadd score
       (if contains ''MacBook'' b then [3]
        else if contains ''ThinkPad'' b then [2]
        else if contains ''XPS'' b then [2]
        else if contains ''Surface'' b then [2]
        else if contains ''Alienware'' b then [3]
        else [])"
  by (simp add: premium_bonus_def)

text \<open>The score is the rounded float sum of its terms; it raises when \<open>bids / 2\<close> does.\<close>

lemma calculate_interest_score_terms:
  "calculate_interest_score a =
     (if overflows (of_int (get_bids a) / 2) then Inl OverflowError
      else Inr (round2 (float_sum (score_terms a))))"
proof -
  have 1: "(if 0 < get_discount_percent a then fadd s (fdiv (get_discount_percent a) 10) else s)
      = foldl fadd s (discount_term a)" for s
    by (simp add: discount_term_def)
  have 3: "(if get_time_remaining_hours a \<le> 1 then fadd s 5
       else if get_time_remaining_hours a \<le> 2 then fadd s 3
       else if get_time_remaining_hours a \<le> 3 then fadd s 1 else s)
      = foldl fadd s (urgency_term a)" for s
    by (simp add: urgency_term_def)
  have 4: "add_bonus premium_bonus (get_brand a) s = foldl fadd s (brand_term a)" for s
    by (simp only: add_bonus_terms brand_term_def)
  have 5: "(if get_current_price a \<le> 500 then fadd s 3
       else if get_current_price a \<le> 800 then fadd s 2
       else if get_current_price a \<le> 1200 then fadd s 1 else s)
      = foldl fadd s (price_term a)" for s
    by (simp add: price_term_def)
  show ?thesis
    unfolding calculate_interest_score_def truediv_def Let_def 1 3 4 5
    by (simp add: float_sum_def score_terms_def bid_term_def)
qed

lemma score_terms_frame:
  "score_terms (a\<lparr>filter_reason := x\<rparr>) = score_terms a"
  "score_terms (a\<lparr>interest_score := y\<rparr>) = score_terms a"
  by (simp_all add: score_terms_def discount_term_def bid_term_def urgency_term_def
      brand_term_def price_term_def getters)

lemma calculate_interest_score_frame:
  "calculate_interest_score (a\<lparr>filter_reason := x\<rparr>) = calculate_interest_score a"
  "calculate_interest_score (a\<lparr>interest_score := y\<rparr>) = calculate_interest_score a"
  by (simp_all add: calculate_interest_score_terms score_terms_frame getters)

lemma survivor_interest_score:
  assumes "survivor cfg a = Some r"
  shows "calculate_interest_score r = Inr (round2 (float_sum (score_terms r)))
    \<and> interest_score r = Some (round2 (float_sum (score_terms r)))"
proof -
  from assms obtain a2 rs s where
    s: "calculate_interest_score (a2\<lparr>filter_reason := Some rs\<rparr>) = Inr s" and
    r: "r = a2\<lparr>filter_reason := Some rs, interest_score := Some s\<rparr>"
    unfolding survivor_Some evaluate_Some by blast
  have c: "calculate_interest_score r = Inr s"
    using s by (simp add: r calculate_interest_score_frame)
  then have "s = round2 (float_sum (score_terms r))"
    by (simp add: calculate_interest_score_terms split: if_splits)
  moreover have "interest_score r = Some s" by (simp add: r)
  ultimately show ?thesis using c by simp
qed

text \<open>
  Claim C4. For every record the filter returns, \<open>interest_score\<close> is the sum, rounded to
  two decimals, of the terms of the score: the discount term when the discount is
  positive, the bid term, the urgency bonus, at most one brand bonus (the first match
  among MacBook, ThinkPad, XPS, Surface, Alienware) and the price bonus. The sum and the
  rounding are those of the floats.
\<close>

theorem interest_score_sum:
  assumes "r \<in> set (filter_interesting_auctions cfg auctions)"
  shows "interest_score r = Some (round2 (float_sum (score_terms r)))"
proof -
  from assms obtain a where "survivor cfg a = Some r"
    unfolding in_filter_interesting_auctions by blast
  then show ?thesis by (simp add: survivor_interest_score)
qed


lemma is_auction_interesting_frame:
  assumes "is_auction_interesting cfg a = Inr (True, a2)"
  shows "current_price a2 = current_price a"
  using assms unfolding is_auction_interesting_True is_premium_brand_True has_good_discount_True
  by auto



section \<open>The cascade and the score on the example records\<close>

lemma evaluateI:
  assumes "is_auction_interesting cfg a = Inr (True, a2)"
    and "get_filter_reasons cfg a2 = Inr rs"
    and "calculate_interest_score a2 = Inr s"
  shows "evaluate cfg a = Inr (Some (a2\<lparr>filter_reason := Some rs, interest_score := Some s\<rparr>))"
  unfolding evaluate_Some using assms by (auto simp: calculate_interest_score_frame)

lemma survivorI:
  assumes "is_auction_interesting cfg a = Inr (True, a2)"
    and "get_filter_reasons cfg a2 = Inr rs"
    and "calculate_interest_score a2 = Inr s"
  shows "survivor cfg a = Some (a2\<lparr>filter_reason := Some rs, interest_score := Some s\<rparr>)"
  unfolding survivor_Some using assms by (rule evaluateI)


lemma example_interesting:
  "is_auction_interesting example_policy example_auction = Inr (True, example_auction)"
  by code_simp

lemma example_reasons:
  "get_filter_reasons example_policy example_auction
     = Inr [PremiumBrand ''MacBook'', HighActivity 8, AttractivePrice]"
  by code_simp

lemma example_score: "calculate_interest_score example_auction = Inr 11"
  by code_simp

lemma example_survives: "survivor example_policy example_auction = Some example_survivor"
  unfolding example_survivor_def
  using example_interesting example_reasons example_score by (rule survivorI)

lemma backfill_interesting:
  "is_auction_interesting example_policy backfill_auction =
     Inr (True, backfill_auction\<lparr>brand := Some ''MacBook'', discount_percent := Some (297 / 4)\<rparr>)"
  by code_simp

lemma backfill_reasons:
  "get_filter_reasons example_policy
     (backfill_auction\<lparr>brand := Some ''MacBook'', discount_percent := Some (297 / 4)\<rparr>)
     = Inr [PremiumBrand ''MacBook'', Discount (297 / 4), HighActivity 8, AttractivePrice]"
  by code_simp

lemma backfill_score:
  "calculate_interest_score
     (backfill_auction\<lparr>brand := Some ''MacBook'', discount_percent := Some (297 / 4)\<rparr>)
     = Inr (fl (1843 / 100))"
  by code_simp

lemma backfill_survives: "survivor example_policy backfill_auction = Some backfill_survivor"
  unfolding backfill_survivor_def
  using backfill_interesting backfill_reasons backfill_score by (rule survivorI)

lemma backfill_filter:
  "filter_interesting_auctions example_policy [backfill_auction] = [backfill_survivor]"
  by (simp add: filter_interesting_auctions_def filter_loop_survivor List.map_filter_simps
      backfill_survives sort_reverse_def)

lemma backfill_terms:
  "score_terms backfill_survivor = [fdiv (297 / 4) 10, 4, 1, 3, 3]"
  by code_simp

lemma backfill_float_sum:
  "float_sum [fdiv (297 / 4) 10, 4, 1, 3, 3] = 5186176445893837 / 281474976710656"
  by code_simp

lemma backfill_round2:
  "round2 (5186176445893837 / 281474976710656) = 2593791910388695 / 140737488355328"
  by code_simp

lemma fl_1843: "fl (1843 / 100) = 2593791910388695 / 140737488355328"
  by code_simp

text \<open>
  On the listing at 103 with the original price 400 the terms are the discount term,
  \<open>4\<close> for the bids, \<open>1\<close> for the urgency, \<open>3\<close> for the brand and \<open>3\<close> for the price; their
  float sum is just above \<open>18.425\<close> and the score is the float \<open>18.43\<close>.
\<close>

theorem interest_score_sum_witness:
  "backfill_survivor \<in> set (filter_interesting_auctions example_policy [backfill_auction]) \<and>
   score_terms backfill_survivor = [fdiv (297 / 4) 10, 4, 1, 3, 3] \<and>
   float_sum (score_terms backfill_survivor) = 5186176445893837 / 281474976710656 \<and>
   interest_score backfill_survivor = Some (2593791910388695 / 140737488355328) \<and>
   fl (1843 / 100) = 2593791910388695 / 140737488355328"
proof -
  have m: "backfill_survivor \<in> set (filter_interesting_auctions example_policy [backfill_auction])"
    by (simp add: backfill_filter)
  have "interest_score backfill_survivor = Some (round2 (float_sum (score_terms backfill_survivor)))"
    using m by (rule interest_score_sum)
  then have "interest_score backfill_survivor = Some (2593791910388695 / 140737488355328)"
    by (simp only: backfill_terms backfill_float_sum backfill_round2)
  with m show ?thesis
    by (simp only: backfill_terms backfill_float_sum fl_1843 simp_thms)
qed





section \<open>The order of the result\<close>

lemma survivor_has_score:
  assumes "survivor cfg a = Some r"
  shows "interest_score r = Some (get_interest_score r)"
  using survivor_interest_score [OF assms] by (simp add: get_interest_score_def)

lemma filtered_has_score:
  assumes "r \<in> set (filter_interesting_auctions cfg auctions)"
  shows "interest_score r = Some (get_interest_score r)"
  using assms unfolding in_filter_interesting_auctions by (auto dest: survivor_has_score)

lemma filter_score_key:
  assumes "\<And>r. r \<in> set xs \<Longrightarrow> interest_score r = Some (get_interest_score r)"
  shows "filter (\<lambda>r. interest_score r = Some s) xs = filter (\<lambda>r. get_interest_score r = s) xs"
  using assms by (intro filter_cong) auto

lemma low_interesting:
  "is_auction_interesting example_policy low_auction = Inr (True, low_auction)"
  by code_simp

lemma low_reasons:
  "get_filter_reasons example_policy low_auction
     = Inr [PremiumBrand ''MacBook'', HighActivity 3, AttractivePrice]"
  by code_simp

lemma low_score: "calculate_interest_score low_auction = Inr (17 / 2)"
  by code_simp

lemma low_survives: "survivor example_policy low_auction = Some low_survivor"
  unfolding low_survivor_def
  using low_interesting low_reasons low_score by (rule survivorI)

lemma tie_interesting:
  "is_auction_interesting example_policy tie_auction = Inr (True, tie_auction)"
  by code_simp

lemma tie_reasons:
  "get_filter_reasons example_policy tie_auction
     = Inr [PremiumBrand ''MacBook'', HighActivity 8, AttractivePrice]"
  by code_simp

lemma tie_score: "calculate_interest_score tie_auction = Inr 11"
  by code_simp

lemma tie_survives: "survivor example_policy tie_auction = Some tie_survivor"
  unfolding tie_survivor_def
  using tie_interesting tie_reasons tie_score by (rule survivorI)

lemma example_keys:
  "get_interest_score low_survivor = 17 / 2"
  "get_interest_score example_survivor = 11"
  "get_interest_score tie_survivor = 11"
  by (simp_all add: get_interest_score_def low_survivor_def example_survivor_def
      tie_survivor_def)

lemma example_loop:
  "List.map_filter (survivor example_policy) [low_auction, example_auction, tie_auction]
     = [low_survivor, example_survivor, tie_survivor]"
  by (simp add: List.map_filter_simps low_survives example_survives tie_survives)

lemma example_sort:
  "sort_reverse get_interest_score [low_survivor, example_survivor, tie_survivor]
     = [example_survivor, tie_survivor, low_survivor]"
  by (simp add: sort_reverse_def example_keys)

lemma example_order:
  "filter_interesting_auctions example_policy [low_auction, example_auction, tie_auction]
     = [example_survivor, tie_survivor, low_survivor]"
  by (simp only: filter_interesting_auctions_def filter_loop_survivor append_Nil example_loop
      example_sort)

lemma example_scores:
  "map interest_score [example_survivor, tie_survivor, low_survivor]
     = [Some 11, Some 11, Some (17 / 2)]"
  "map ebay_id [example_survivor, tie_survivor, low_survivor]
     = [Some ''123456789012'', Some ''222222222222'', Some ''111111111111'']"
  by (simp_all add: low_survivor_def example_survivor_def tie_survivor_def low_auction_def
      tie_auction_def example_auction_def)

text \<open>
  Claim C7. The \<open>interest_score\<close> fields of the result are the scores \<open>s\<^sub>1 \<ge> s\<^sub>2 \<ge> \<dots>\<close> in
  descending order, and the records of any one score are in the order in which the loop
  produced them from the input. For the three listings with the scores \<open>8.5\<close>, \<open>11\<close> and
  \<open>11\<close> the result is the second, the third and the first.
\<close>

theorem filter_sorted_descending_stable:
  "(\<exists>scores. map interest_score (filter_interesting_auctions cfg auctions) = map Some scores
      \<and> sorted (rev scores)) \<and>
   (\<forall>s. filter (\<lambda>r. interest_score r = Some s) (filter_interesting_auctions cfg auctions) =
        filter (\<lambda>r. interest_score r = Some s) (List.map_filter (survivor cfg) auctions)) \<and>
   List.map_filter (survivor example_policy) [low_auction, example_auction, tie_auction]
     = [low_survivor, example_survivor, tie_survivor] \<and>
   filter_interesting_auctions example_policy [low_auction, example_auction, tie_auction]
     = [example_survivor, tie_survivor, low_survivor] \<and>
   map interest_score [example_survivor, tie_survivor, low_survivor]
     = [Some 11, Some 11, Some (17 / 2)] \<and>
   map ebay_id [example_survivor, tie_survivor, low_survivor]
     = [Some ''123456789012'', Some ''222222222222'', Some ''111111111111'']"
proof (intro conjI allI)
  let ?out = "filter_interesting_auctions cfg auctions"
  let ?k = get_interest_score
  have "sorted_wrt (\<lambda>a b. ?k b \<le> ?k a) ?out"
    by (simp add: filter_interesting_auctions_def sort_reverse_sorted)
  then have "sorted_wrt (\<lambda>a b. ?k a \<le> ?k b) (rev ?out)"
    by (simp add: sorted_wrt_rev)
  then have "sorted (map ?k (rev ?out))"
    by (simp add: sorted_map)
  then have s: "sorted (rev (map ?k ?out))"
    by (simp add: rev_map)
  have "map interest_score ?out = map Some (map ?k ?out)"
    by (simp add: filtered_has_score)
  with s show "\<exists>scores. map interest_score ?out = map Some scores \<and> sorted (rev scores)"
    by blast
next
  fix s
  let ?out = "filter_interesting_auctions cfg auctions"
  let ?loop = "List.map_filter (survivor cfg) auctions"
  have "filter (\<lambda>r. interest_score r = Some s) ?out
      = filter (\<lambda>r. get_interest_score r = s) ?out"
    by (rule filter_score_key) (rule filtered_has_score)
  also have "\<dots> = filter (\<lambda>r. get_interest_score r = s) ?loop"
    by (simp add: filter_interesting_auctions_def filter_loop_survivor sort_reverse_stable)
  also have "\<dots> = filter (\<lambda>r. interest_score r = Some s) ?loop"
    by (rule filter_score_key [symmetric]) (auto simp: in_set_map_filter dest: survivor_has_score)
  finally show "filter (\<lambda>r. interest_score r = Some s) ?out
      = filter (\<lambda>r. interest_score r = Some s) ?loop" .
next
  show "List.map_filter (survivor example_policy) [low_auction, example_auction, tie_auction]
     = [low_survivor, example_survivor, tie_survivor]"
    by (rule example_loop)
  show "filter_interesting_auctions example_policy [low_auction, example_auction, tie_auction]
     = [example_survivor, tie_survivor, low_survivor]"
    by (rule example_order)
  show "map interest_score [example_survivor, tie_survivor, low_survivor]
     = [Some 11, Some 11, Some (17 / 2)]"
    by (rule example_scores)
  show "map ebay_id [example_survivor, tie_survivor, low_survivor]
     = [Some ''123456789012'', Some ''222222222222'', Some ''111111111111'']"
    by (rule example_scores)
qed

section \<open>Filtering the result again\<close>

lemma price_in_range_cong:
  assumes "current_price x = current_price y"
  shows "price_in_range cfg x = price_in_range cfg y"
  unfolding price_in_range_def getters assms ..

lemma time_remaining_valid_cong:
  assumes "time_remaining_hours x = time_remaining_hours y"
  shows "time_remaining_valid cfg x = time_remaining_valid cfg y"
  unfolding time_remaining_valid_def getters assms ..

lemma has_minimum_activity_cong:
  assumes "bids x = bids y"
  shows "has_minimum_activity cfg x = has_minimum_activity cfg y"
  unfolding has_minimum_activity_def getters assms ..

lemma has_excluded_keywords_cong:
  assumes "title x = title y"
  shows "has_excluded_keywords cfg x = has_excluded_keywords cfg y"
  unfolding has_excluded_keywords_def getters assms ..

lemma alternative_value_check_cong:
  assumes "current_price x = current_price y" "bids x = bids y" "brand x = brand y"
  shows "alternative_value_check cfg x = alternative_value_check cfg y"
  unfolding alternative_value_check_def getters assms ..

lemma get_filter_reasons_cong:
  assumes "current_price x = current_price y" "bids x = bids y" "brand x = brand y"
    "time_remaining_hours x = time_remaining_hours y"
    "discount_percent x = discount_percent y"
  shows "get_filter_reasons cfg x = get_filter_reasons cfg y"
  unfolding get_filter_reasons_def getters assms ..

lemma calculate_interest_score_cong:
  assumes "current_price x = current_price y" "bids x = bids y" "brand x = brand y"
    "time_remaining_hours x = time_remaining_hours y"
    "discount_percent x = discount_percent y"
  shows "calculate_interest_score x = calculate_interest_score y"
  unfolding calculate_interest_score_def getters assms ..

lemma brand_update_same: "brand x = v \<Longrightarrow> x\<lparr>brand := v\<rparr> = x"
  by auto

lemma discount_update_same: "discount_percent x = v \<Longrightarrow> x\<lparr>discount_percent := v\<rparr> = x"
  by auto

lemma is_premium_brand_frame:
  assumes "is_premium_brand cfg a = Inr (True, a1)"
  shows "current_price a1 = current_price a" "bids a1 = bids a"
    "time_remaining_hours a1 = time_remaining_hours a" "title a1 = title a"
    "original_price a1 = original_price a"
  using assms unfolding is_premium_brand_True by auto

lemma has_good_discount_frame:
  assumes "has_good_discount cfg a1 = Inr (True, a2)"
  shows "current_price a2 = current_price a1" "bids a2 = bids a1" "brand a2 = brand a1"
    "time_remaining_hours a2 = time_remaining_hours a1" "title a2 = title a1"
    "original_price a2 = original_price a1"
  using assms unfolding has_good_discount_True by auto

text \<open>A record that passed the brand check with the brand it now has passes it again.\<close>

lemma is_premium_brand_again:
  assumes prem: "is_premium_brand cfg a = Inr (True, a1)"
    and x: "brand x = brand a1" "title x = title a"
  shows "is_premium_brand cfg x = Inr (True, x)"
proof -
  from prem obtain ps where ps: "PREMIUM_BRANDS cfg = Some ps" and
    c: "(\<exists>b. brand a = Some b \<and> b \<noteq> [] \<and> b \<in> set ps \<and> a1 = a) \<or>
         ((brand a = None \<or> brand a = Some []) \<and>
          (\<exists>p. find_premium ps (lower (get_title a)) = Some p \<and> a1 = a\<lparr>brand := Some p\<rparr>))"
    unfolding is_premium_brand_True by blast
  have t: "get_title x = get_title a" using x(2) by (simp add: getters)
  from c show ?thesis
  proof
    assume "\<exists>b. brand a = Some b \<and> b \<noteq> [] \<and> b \<in> set ps \<and> a1 = a"
    then obtain b where "brand x = Some b" "b \<noteq> []" "b \<in> set ps" using x(1) by auto
    then show ?thesis unfolding is_premium_brand_True using ps by auto
  next
    assume "(brand a = None \<or> brand a = Some []) \<and>
          (\<exists>p. find_premium ps (lower (get_title a)) = Some p \<and> a1 = a\<lparr>brand := Some p\<rparr>)"
    then obtain p where p: "find_premium ps (lower (get_title a)) = Some p"
      and a1: "a1 = a\<lparr>brand := Some p\<rparr>" by blast
    have bx: "brand x = Some p" using x(1) a1 by simp
    have u: "x\<lparr>brand := Some p\<rparr> = x" using bx by (rule brand_update_same)
    have pin: "p \<in> set ps" using p by (auto dest: find_premium_Some)
    show ?thesis
    proof (cases "p = []")
      case True
      have "(brand x = None \<or> brand x = Some []) \<and>
          (\<exists>q. find_premium ps (lower (get_title x)) = Some q \<and> x = x\<lparr>brand := Some q\<rparr>)"
        using bx True p t u by auto
      then show ?thesis unfolding is_premium_brand_True using ps by blast
    next
      case False
      then have "\<exists>b. brand x = Some b \<and> b \<noteq> [] \<and> b \<in> set ps \<and> x = x"
        using bx pin by blast
      then show ?thesis unfolding is_premium_brand_True using ps by blast
    qed
  qed
qed

text \<open>Likewise for the discount check, with the discount it stored.\<close>

lemma has_good_discount_again:
  assumes disc: "has_good_discount cfg a1 = Inr (True, a2)"
    and x: "original_price x = original_price a1" "current_price x = current_price a1"
      "bids x = bids a1" "brand x = brand a1" "discount_percent x = discount_percent a2"
  shows "has_good_discount cfg x = Inr (True, x)"
proof -
  have p: "get_current_price x = get_current_price a1" using x(2) by (simp add: getters)
  have alt: "alternative_value_check cfg x = alternative_value_check cfg a1"
    using x(2,3,4) by (rule alternative_value_check_cong)
  from disc consider
    (alt) "original_price a1 = None \<or> original_price a1 = Some 0
        \<or> (\<exists>original. original_price a1 = Some original \<and> original \<le> get_current_price a1)"
      "alternative_value_check cfg a1 = Inr True"
  | (discount) original md where "original_price a1 = Some original" "original \<noteq> 0"
      "get_current_price a1 < original" "MIN_DISCOUNT_PERCENT cfg = Some md"
      "md \<le> discount_of original (get_current_price a1)"
      "a2 = a1\<lparr>discount_percent := Some (discount_of original (get_current_price a1))\<rparr>"
    unfolding has_good_discount_True by blast
  then show ?thesis
  proof cases
    case alt
    have "(original_price x = None \<or> original_price x = Some 0
        \<or> (\<exists>original. original_price x = Some original \<and> original \<le> get_current_price x))
      \<and> alternative_value_check cfg x = Inr True \<and> x = x"
      using alt by (simp add: x(1) p \<open>alternative_value_check cfg x = alternative_value_check cfg a1\<close>)
    then show ?thesis unfolding has_good_discount_True [of cfg x x] by blast
  next
    case discount
    have "discount_percent x = Some (discount_of original (get_current_price a1))"
      using x(5) discount(6) by simp
    then have u: "x\<lparr>discount_percent := Some (discount_of original (get_current_price a1))\<rparr> = x"
      by (rule discount_update_same)
    have "original_price x = Some original \<and> original \<noteq> 0
        \<and> get_current_price x < original
        \<and> MIN_DISCOUNT_PERCENT cfg = Some md
        \<and> md \<le> discount_of original (get_current_price x)
        \<and> x = x\<lparr>discount_percent := Some (discount_of original (get_current_price x))\<rparr>"
      using discount(1-5) by (simp add: x(1) p u)
    then show ?thesis unfolding has_good_discount_True [of cfg x x] by blast
  qed
qed

text \<open>A record the loop produced is produced unchanged when it is evaluated again.\<close>

lemma survivor_again:
  assumes "survivor cfg a = Some r"
  shows "survivor cfg r = Some r"
proof -
  from assms obtain a2 rs s where int: "is_auction_interesting cfg a = Inr (True, a2)"
    and rs: "get_filter_reasons cfg a2 = Inr rs"
    and sc: "calculate_interest_score (a2\<lparr>filter_reason := Some rs\<rparr>) = Inr s"
    and r: "r = a2\<lparr>filter_reason := Some rs, interest_score := Some s\<rparr>"
    unfolding survivor_Some evaluate_Some by blast
  from int obtain a1 where
    price: "price_in_range cfg a = Inr True" and
    prem: "is_premium_brand cfg a = Inr (True, a1)" and
    time: "time_remaining_valid cfg a1 = Inr True" and
    act: "has_minimum_activity cfg a1 = Inr True" and
    kw: "has_excluded_keywords cfg a1 = Inr False" and
    disc: "has_good_discount cfg a1 = Inr (True, a2)"
    unfolding is_auction_interesting_True by blast
  note f10 = is_premium_brand_frame [OF prem] and f21 = has_good_discount_frame [OF disc]
  have f2: "current_price r = current_price a2" "bids r = bids a2" "brand r = brand a2"
    "time_remaining_hours r = time_remaining_hours a2" "title r = title a2"
    "discount_percent r = discount_percent a2" "original_price r = original_price a2"
    by (simp_all add: r)
  have 1: "price_in_range cfg r = Inr True"
    using price price_in_range_cong [of r a cfg] f2 f21 f10 by simp
  have 2: "is_premium_brand cfg r = Inr (True, r)"
    using prem by (rule is_premium_brand_again) (simp_all add: f2 f21 f10)
  have 3: "time_remaining_valid cfg r = Inr True"
    using time time_remaining_valid_cong [of r a1 cfg] f2 f21 by simp
  have 4: "has_minimum_activity cfg r = Inr True"
    using act has_minimum_activity_cong [of r a1 cfg] f2 f21 by simp
  have 5: "has_excluded_keywords cfg r = Inr False"
    using kw has_excluded_keywords_cong [of r a1 cfg] f2 f21 by simp
  have 6: "has_good_discount cfg r = Inr (True, r)"
    using disc by (rule has_good_discount_again) (simp_all add: f2 f21)
  have int': "is_auction_interesting cfg r = Inr (True, r)"
    unfolding is_auction_interesting_True using 1 2 3 4 5 6 by blast
  have rs': "get_filter_reasons cfg r = Inr rs"
    using rs get_filter_reasons_cong [of r a2 cfg] f2 by simp
  have "calculate_interest_score (r\<lparr>filter_reason := Some rs\<rparr>)
      = calculate_interest_score (a2\<lparr>filter_reason := Some rs\<rparr>)"
    by (rule calculate_interest_score_cong) (simp_all add: f2)
  with sc have sc': "calculate_interest_score (r\<lparr>filter_reason := Some rs\<rparr>) = Inr s"
    by simp
  have same: "r\<lparr>filter_reason := Some rs, interest_score := Some s\<rparr> = r"
    by (simp add: r)
  have "\<exists>a2' rs' s'. is_auction_interesting cfg r = Inr (True, a2')
        \<and> get_filter_reasons cfg a2' = Inr rs'
        \<and> calculate_interest_score (a2'\<lparr>filter_reason := Some rs'\<rparr>) = Inr s'
        \<and> r = a2'\<lparr>filter_reason := Some rs', interest_score := Some s'\<rparr>"
    using int' rs' sc' same by (intro exI [of _ r] exI [of _ rs] exI [of _ s]) simp
  then show ?thesis unfolding survivor_Some evaluate_Some .
qed

lemma map_filter_fixed:
  "(\<And>x. x \<in> set xs \<Longrightarrow> f x = Some x) \<Longrightarrow> List.map_filter f xs = xs"
  by (induction xs) (simp_all add: List.map_filter_simps)

lemma example_again: "survivor example_policy backfill_survivor = Some backfill_survivor"
  using backfill_survives by (rule survivor_again)

text \<open>
  Claim C10. For every policy and every input list, the filter applied to its own result
  returns that result unchanged: every record of the result passes every predicate again
  and is enriched with the same reasons and the same score, and the sorted list stays in
  its order.
\<close>

theorem filter_idempotent:
  "filter_interesting_auctions cfg (filter_interesting_auctions cfg auctions)
     = filter_interesting_auctions cfg auctions"
proof -
  let ?out = "filter_interesting_auctions cfg auctions"
  have "\<And>x. x \<in> set ?out \<Longrightarrow> survivor cfg x = Some x"
    unfolding in_filter_interesting_auctions by (auto dest: survivor_again)
  then have "List.map_filter (survivor cfg) ?out = ?out"
    by (rule map_filter_fixed)
  then have "filter_interesting_auctions cfg ?out = sort_reverse get_interest_score ?out"
    by (simp add: filter_interesting_auctions_def [of cfg ?out] filter_loop_survivor)
  also have "\<dots> = ?out"
    by (rule sort_reverse_id) (simp add: filter_interesting_auctions_def sort_reverse_sorted)
  finally show ?thesis .
qed

end
